theory Spec2Isabelle
  imports Main "HOL-Library.Sublist"
begin

section \<open>Python strings\<close>

text \<open>
  A Python \<open>str\<close> is a sequence of Unicode code points, so a string of the scripts is a
  list of code points (natural numbers). \<open>u\<close> reads an ASCII literal as such a string and
  \<open>cp\<close> a character as its code point.

  \<open>str.lower\<close> is the Unicode lower-casing of the Python runtime. It is not part of the
  repository and is taken as a parameter \<open>lower\<close> by every function that calls it;
  \<open>ascii_lower\<close> is what it does on strings of ASCII code points.
\<close>

type_synonym ustr = "nat list"

definition cp :: "char \<Rightarrow> nat" where
  "cp c = of_char c"

definition u :: "string \<Rightarrow> ustr" where
  "u s = map cp s"

definition ascii_lower :: "ustr \<Rightarrow> ustr" where
  "ascii_lower s = map (\<lambda>c. if 65 \<le> c \<and> c \<le> 90 then c + 32 else c) s"

text \<open>
  \<open>str.isspace\<close> of one code point; \<open>str.strip()\<close> and the pattern \<open>\s\<close> of \<open>re\<close> on
  \<open>str\<close> both use it.
\<close>

definition isspace :: "nat \<Rightarrow> bool" where
  "isspace c \<longleftrightarrow>
     (9 \<le> c \<and> c \<le> 13) \<or> (28 \<le> c \<and> c \<le> 32) \<or> c = 133 \<or> c = 160 \<or> c = 5760 \<or>
     (8192 \<le> c \<and> c \<le> 8202) \<or> c = 8232 \<or> c = 8233 \<or> c = 8239 \<or> c = 8287 \<or> c = 12288"

text \<open>\<open>s.strip(chars)\<close>: drop the characters of the class at both ends.\<close>

definition strip_chars :: "(nat \<Rightarrow> bool) \<Rightarrow> ustr \<Rightarrow> ustr" where
  "strip_chars P s = rev (dropWhile P (rev (dropWhile P s)))"

definition strip :: "ustr \<Rightarrow> ustr" where
  "strip s = strip_chars isspace s"

text \<open>
  \<open>s.replace(old, new)\<close>: the occurrences of \<open>old\<close> are found from the left and do not
  overlap; an empty \<open>old\<close> matches before every character and at the end.
\<close>

function replace :: "ustr \<Rightarrow> ustr \<Rightarrow> ustr \<Rightarrow> ustr" where
  "replace old new [] = (if old = [] then new else [])"
| "replace old new (c # cs) =
     (if old = [] then new @ c # replace old new cs
      else if prefix old (c # cs) then new @ replace old new (drop (length old) (c # cs))
      else c # replace old new cs)"
  by pat_completeness auto
termination
  by (relation "measure (\<lambda>(old, new, s). length s)") auto

text \<open>
  \<open>re.sub(r"[class]+", rep, s)\<close>: every maximal run of characters of the class becomes
  one copy of \<open>rep\<close>.
\<close>

function re_sub_runs :: "(nat \<Rightarrow> bool) \<Rightarrow> ustr \<Rightarrow> ustr \<Rightarrow> ustr" where
  "re_sub_runs P rep [] = []"
| "re_sub_runs P rep (c # cs) =
     (if P c then rep @ re_sub_runs P rep (dropWhile P cs) else c # re_sub_runs P rep cs)"
  by pat_completeness auto
termination
  by (relation "measure (\<lambda>(P, rep, s). length s)")
     (auto simp: length_dropWhile_le less_Suc_eq_le)

section \<open>Errors\<close>

text \<open>
  Every exception the scripts can raise is a value. \<open>TypeError p\<close> (a call without its
  required argument \<open>p\<close>) and \<open>AttributeError a\<close> (an object without the attribute \<open>a\<close>)
  are raised by the interpreter, \<open>RuntimeError\<close> by the scripts themselves (the message is
  kept as its parts: \<open>AuthFailed status body\<close>, \<open>AuthMissingToken\<close>,
  \<open>SearchError status body\<close>, \<open>DownloadError id status body\<close> and
  \<open>UnexpectedDownload id excerpt\<close>), \<open>HTTPError\<close> by \<open>raise_for_status\<close>, \<open>RequestException\<close> by
  \<open>requests.get\<close> and \<open>requests.post\<close> when no response arrives (no connection, a URL
  without scheme), \<open>JSONDecodeError\<close> by \<open>resp.json()\<close> and \<open>OSError\<close> by the file system.
\<close>

datatype error =
    TypeError string
  | AttributeError string
  | AuthFailed int string
  | AuthMissingToken
  | SearchError int string
  | DownloadError int int string
  | UnexpectedDownload int string
  | HTTPError int
  | RequestException
  | JSONDecodeError
  | OSError

section \<open>Filename sanitizers\<close>

text \<open>The character class \<open>[a-z0-9._-]\<close>.\<close>

definition filename_char :: "nat \<Rightarrow> bool" where
  "filename_char c \<longleftrightarrow>
     (cp CHR ''a'' \<le> c \<and> c \<le> cp CHR ''z'') \<or> (cp CHR ''0'' \<le> c \<and> c \<le> cp CHR ''9'') \<or>
     c = cp CHR ''.'' \<or> c = cp CHR ''_'' \<or> c = cp CHR ''-''"

text \<open>
  \<open>safe_filename\<close> of \<open>workflows/fetch_flaticon.py\<close>:
  \<^verbatim>\<open>
  text = text.strip().lower()
  text = re.sub(r"[^a-z0-9._-]+", "-", text)
  return re.sub(r"-+", "-", text).strip("-") or "icon"
  \<close>
\<close>

definition safe_filename_w :: "(ustr \<Rightarrow> ustr) \<Rightarrow> ustr \<Rightarrow> ustr" where
  "safe_filename_w lower text =
     (let text = lower (strip text);
          text = re_sub_runs (\<lambda>c. \<not> filename_char c) (u ''-'') text;
          r = strip_chars (\<lambda>c. c = cp CHR ''-'') (re_sub_runs (\<lambda>c. c = cp CHR ''-'') (u ''-'') text)
      in if r = [] then u ''icon'' else r)"

text \<open>
  \<open>re.sub(pattern, repl, string)\<close> for a pattern \<open>[class]+\<close>, with the third argument as
  the call site gives it: a call without it raises \<open>TypeError\<close> (\<open>sub() missing 1 required
  positional argument: 'string'\<close>).
\<close>

definition re_sub :: "(nat \<Rightarrow> bool) \<Rightarrow> ustr \<Rightarrow> ustr option \<Rightarrow> error + ustr" where
  "re_sub P rep arg =
     (case arg of
        None \<Rightarrow> Inl (TypeError ''string'')
      | Some s \<Rightarrow> Inr (re_sub_runs P rep s))"

text \<open>The character class \<open>[a-z0-9._ -]\<close> of the label sanitizer.\<close>

definition label_char :: "nat \<Rightarrow> bool" where
  "label_char c \<longleftrightarrow> filename_char c \<or> c = cp CHR '' ''"

text \<open>
  \<open>safe_filename\<close> of \<open>scripts/fetch_flaticon.py\<close>:
  \<^verbatim>\<open>
  t = text.strip().lower()
  t = t.replace("&", "and")
  t = re.sub(r"[./]+", "-")  # dots/slashes -> hyphen
  t = re.sub(r"[^a-z0-9._ -]+", "", t)
  t = re.sub(r"\s+", "-", t)
  t = re.sub(r"-+", "-", t)
  return t.strip("-") or "icon"
  \<close>
  The third line calls \<open>re.sub\<close> with two arguments.
\<close>

definition safe_filename_s :: "(ustr \<Rightarrow> ustr) \<Rightarrow> ustr \<Rightarrow> error + ustr" where
  "safe_filename_s lower text =
     (let t = lower (strip text);
          t = replace (u ''&'') (u ''and'') t
      in case re_sub (\<lambda>c. c = cp CHR ''.'' \<or> c = cp CHR ''/'') (u ''-'') None of
           Inl e \<Rightarrow> Inl e
         | Inr t \<Rightarrow>
       (case re_sub (\<lambda>c. \<not> label_char c) [] (Some t) of
           Inl e \<Rightarrow> Inl e
         | Inr t \<Rightarrow>
       (case re_sub isspace (u ''-'') (Some t) of
           Inl e \<Rightarrow> Inl e
         | Inr t \<Rightarrow>
       (case re_sub (\<lambda>c. c = cp CHR ''-'') (u ''-'') (Some t) of
           Inl e \<Rightarrow> Inl e
         | Inr t \<Rightarrow>
           (let r = strip_chars (\<lambda>c. c = cp CHR ''-'') t
            in Inr (if r = [] then u ''icon'' else r))))))"

section \<open>Query normalizer\<close>

text \<open>
  The dictionary \<open>fixes\<close> of \<open>normalize_query\<close> (named \<open>fixes_table\<close> here), in
  insertion order: the order in which \<open>fixes.items()\<close> yields it.
\<close>

definition fixes_table :: "(ustr \<times> ustr) list" where
  "fixes_table =
     [(u ''e.guitar'', u ''electric guitar''),
      (u ''e.piano'', u ''electric piano''),
      (u ''drumkit'', u ''drum kit''),
      (u ''sub category'', u ''subcategory''),
      (u ''choir&vocals'', u ''choir vocals''),
      (u ''church&christmas'', u ''church christmas''),
      (u ''euro dance'', u ''eurodance''),
      (u ''euro organ artist'', u ''organ artist''),
      (u ''fm xpanded'', u ''fm expanded''),
      (u ''japanes'', u ''japanese''),
      (u ''vietnamise'', u ''vietnamese''),
      (u ''bariton'', u ''baritone''),
      (u ''sa 2'', u ''sa2'')]"

text \<open>
  The loop \<open>for k, v in fixes.items(): if k in key: key = key.replace(k, v)\<close> over a
  table of rules.
\<close>

fun apply_fixes :: "(ustr \<times> ustr) list \<Rightarrow> ustr \<Rightarrow> ustr" where
  "apply_fixes [] key = key"
| "apply_fixes ((k, v) # rules) key =
     apply_fixes rules (if sublist k key then replace k v key else key)"

text \<open>
  The key before the table is applied: the label trimmed, lower-cased, trimmed again, with
  the en dash (U+2013) and the em dash (U+2014) replaced by a hyphen.
\<close>

definition dash_key :: "(ustr \<Rightarrow> ustr) \<Rightarrow> ustr \<Rightarrow> ustr" where
  "dash_key lower label =
     replace [8212] (u ''-'') (replace [8211] (u ''-'') (strip (lower (strip label))))"

definition normalize_query :: "(ustr \<Rightarrow> ustr) \<Rightarrow> ustr \<Rightarrow> ustr" where
  "normalize_query lower label =
     (let raw = strip label;
          key = dash_key lower label;
          key = apply_fixes fixes_table key;
          key = replace (u ''.'') (u '' '') key;
          key = strip (re_sub_runs isspace (u '' '') key)
      in if key = [] then raw else key)"

section \<open>The world outside: network, file system, console\<close>

text \<open>
  Everything a script does to the outside is one effect, and a world is the list of the
  effects so far, latest first. A path is the list of its components, as \<open>pathlib\<close>
  holds it; \<open>Mkdir p\<close> is a successful \<open>p.mkdir(parents=True, exist_ok=True)\<close> and
  \<open>Write p b\<close> a file \<open>p\<close> written with the bytes \<open>b\<close>.
\<close>

type_synonym path = "ustr list"

type_synonym bytes = "nat list"

datatype fmt = Png | Svg

datatype order = Priority | Added

text \<open>
  The requests, with the bearer token of the \<open>Authorization\<close> header where there is one:
  \<^item> \<open>AuthReq apikey\<close>: \<open>POST /app/authentication\<close>, form field \<open>apikey\<close>;
  \<^item> \<open>SearchReq token order q limit page\<close>: \<open>GET /search/icons/{order}?q=&limit=&page=\<close>;
  \<^item> \<open>ResolveQuery token id fmt size\<close>: \<open>GET /item/icon/download/{id}?format=fmt[&size=n]\<close>;
  \<^item> \<open>ResolvePath token id fmt size\<close>: \<open>GET /item/icon/download/{id}/{fmt}[?size=n]\<close>;
  \<^item> \<open>AssetReq url\<close>: \<open>GET url\<close>, no headers.
\<close>

datatype request =
    AuthReq string
  | SearchReq string order ustr int int
  | ResolveQuery string int fmt "int option"
  | ResolvePath string int fmt "int option"
  | AssetReq string

text \<open>
  A search result record: its \<open>"id"\<close> field, if any, and whether it has other fields (an
  empty record is falsy in Python).
\<close>

datatype icon = Icon (ident: "int option") (other_fields: bool)

record metadata =
  m_page :: "int option"
  m_total :: "int option"
  m_count :: "int option"

text \<open>
  A response, as far as the scripts look at it. Bodies are taken to follow the API's
  schema where they are JSON: \<open>is_json\<close> says that \<open>r.json()\<close> returns an object,
  \<open>j_token\<close>, \<open>j_data\<close> and \<open>j_metadata\<close> are its fields \<open>"token"\<close> (a string), \<open>"data"\<close>
  (a list of records) and \<open>"metadata"\<close> (an object with integer fields) where present, and
  \<open>j_url\<close> is the string \<open>r.json()["data"]["url"]\<close>, \<open>None\<close> when that expression raises.
\<close>

record response =
  status_code :: int
  body_text :: string
  is_json :: bool
  j_token :: "string option"
  j_data :: "icon list option"
  j_metadata :: "metadata option"
  j_url :: "string option"
  content_type :: "ustr option"
  content :: bytes

text \<open>
  The lines the scripts print:
  \<^item> \<open>NoKey\<close>: \<open>FLATICON_API_KEY is not set\<close>;
  \<^item> \<open>OkLine label q id dest\<close>, \<open>MissLine label q reason\<close>, \<open>ErrLine label q e\<close>: the
    \<open>OK\<close>, \<open>MISS\<close> and \<open>ERR\<close> lines of the batch-by-label driver;
  \<^item> \<open>DoneLabels successes failures out\<close>: its summary;
  \<^item> \<open>Found n limit\<close>, \<open>Downloaded id path\<close>, \<open>Failed id e\<close>, \<open>DoneQuery downloaded out\<close>:
    the lines of the batch-by-query driver.
\<close>

datatype line =
    NoKey
  | OkLine ustr ustr int path
  | MissLine ustr ustr string
  | ErrLine ustr ustr error
  | DoneLabels nat nat path
  | Found nat int
  | Downloaded int path
  | Failed int error
  | DoneQuery nat path

datatype effect =
    Request request
  | Mkdir path
  | Write path bytes
  | Stdout line
  | Stderr line

type_synonym world = "effect list"

text \<open>
  What a run is given: the value of \<open>os.getenv("FLATICON_API_KEY")\<close>; the server, which
  answers the request at the head of the world and may look at everything before it
  (\<open>None\<close>: the call raises instead of returning a response); whether \<open>mkdir\<close> succeeds;
  and the lines of the label file (\<open>None\<close>: it cannot be opened).
\<close>

record env =
  api_key_var :: "string option"
  net :: "world \<Rightarrow> response option"
  mkdir_ok :: "path \<Rightarrow> bool"
  label_file :: "ustr list option"

text \<open>\<open>requests.get\<close> and \<open>requests.post\<close>: the request is recorded, the server answers.\<close>

definition http :: "env \<Rightarrow> world \<Rightarrow> request \<Rightarrow> (error + response) \<times> world" where
  "http env w req =
     (case net env (Request req # w) of
        None \<Rightarrow> (Inl RequestException, Request req # w)
      | Some r \<Rightarrow> (Inr r, Request req # w))"

section \<open>Authenticator\<close>

text \<open>
  \<open>get_token\<close>, the same in both scripts:
  \<^verbatim>\<open>
  resp = requests.post(url, files={"apikey": (None, api_key)}, headers=...)
  if resp.status_code != 200:
      raise RuntimeError(f"Auth failed: {resp.status_code} {resp.text}")
  data = resp.json()
  token = data.get("token")
  if not token:
      raise RuntimeError(f"Auth response missing token: {data}")
  return token
  \<close>
\<close>

definition get_token :: "env \<Rightarrow> world \<Rightarrow> string \<Rightarrow> (error + string) \<times> world" where
  "get_token env w api_key =
     (case http env w (AuthReq api_key) of
        (Inl e, w') \<Rightarrow> (Inl e, w')
      | (Inr resp, w') \<Rightarrow>
          if status_code resp \<noteq> 200
          then (Inl (AuthFailed (status_code resp) (body_text resp)), w')
          else if \<not> is_json resp then (Inl JSONDecodeError, w')
          else (case j_token resp of
                  None \<Rightarrow> (Inl AuthMissingToken, w')
                | Some token \<Rightarrow>
                    if token = [] then (Inl AuthMissingToken, w') else (Inr token, w')))"

section \<open>Searcher\<close>

text \<open>
  \<open>payload.get("data", [])\<close>, and the two sides of the comparison
  \<open>meta.get("page", 1) * 1 >= meta.get("total", meta.get("count", 0))\<close> with
  \<open>meta = payload.get("metadata", {})\<close>.
\<close>

definition items_of :: "response \<Rightarrow> icon list" where
  "items_of r = (case j_data r of None \<Rightarrow> [] | Some xs \<Rightarrow> xs)"

definition meta_page :: "response \<Rightarrow> int" where
  "meta_page r =
     (case j_metadata r of
        None \<Rightarrow> 1
      | Some meta \<Rightarrow> (case m_page meta of None \<Rightarrow> 1 | Some p \<Rightarrow> p))"

definition meta_total :: "response \<Rightarrow> int" where
  "meta_total r =
     (case j_metadata r of
        None \<Rightarrow> 0
      | Some meta \<Rightarrow>
          (case m_total meta of
             Some t \<Rightarrow> t
           | None \<Rightarrow> (case m_count meta of None \<Rightarrow> 0 | Some c \<Rightarrow> c)))"

text \<open>
  \<open>search_first_icon\<close> of \<open>scripts/fetch_flaticon.py\<close>: one request for the first record
  of page 1; \<open>None\<close> when the page is empty.
\<close>

definition search_first_icon ::
  "env \<Rightarrow> world \<Rightarrow> string \<Rightarrow> ustr \<Rightarrow> order \<Rightarrow> (error + icon option) \<times> world" where
  "search_first_icon env w token query order_by =
     (case http env w (SearchReq token order_by query 1 1) of
        (Inl e, w') \<Rightarrow> (Inl e, w')
      | (Inr r, w') \<Rightarrow>
          if status_code r \<noteq> 200
          then (Inl (SearchError (status_code r) (body_text r)), w')
          else if \<not> is_json r then (Inl JSONDecodeError, w')
          else (case items_of r of
                  [] \<Rightarrow> (Inr None, w')
                | icon # _ \<Rightarrow> (Inr (Some icon), w')))"

text \<open>
  The loop of \<open>search_icons\<close> of \<open>workflows/fetch_flaticon.py\<close>, from a state with \<open>out\<close>
  accumulated and \<open>page\<close> to be requested next:
  \<^verbatim>\<open>
  while len(out) < limit:
      params = {"q": query, "limit": min(100, limit - len(out)), "page": page}
      r = requests.get(url, headers=headers, params=params)
      if r.status_code != 200:
          raise RuntimeError(f"Search error: {r.status_code} {r.text}")
      payload = r.json()
      items = payload.get("data", [])
      if not items:
          break
      out.extend(items)
      meta = payload.get("metadata", {})
      if meta.get("page", 1) * 1 >= meta.get("total", meta.get("count", 0)) or len(items) == 0:
          break
      page += 1
      time.sleep(0.2)  # be polite
  \<close>
  The pause between pages has no effect on the world and is left out.
\<close>

function search_loop ::
  "env \<Rightarrow> string \<Rightarrow> ustr \<Rightarrow> order \<Rightarrow> int \<Rightarrow> icon list \<Rightarrow> int \<Rightarrow> world
     \<Rightarrow> (error + icon list) \<times> world" where
  "search_loop env token query order_by limit out page w =
     (if int (length out) < limit then
        (case http env w
                (SearchReq token order_by query (min 100 (limit - int (length out))) page) of
           (Inl e, w') \<Rightarrow> (Inl e, w')
         | (Inr r, w') \<Rightarrow>
             if status_code r \<noteq> 200
             then (Inl (SearchError (status_code r) (body_text r)), w')
             else if \<not> is_json r then (Inl JSONDecodeError, w')
             else if items_of r = [] then (Inr out, w')
             else if meta_page r * 1 \<ge> meta_total r \<or> length (items_of r) = 0
             then (Inr (out @ items_of r), w')
             else search_loop env token query order_by limit (out @ items_of r) (page + 1) w')
      else (Inr out, w))"
  by pat_completeness auto
termination
  by (relation "measure (\<lambda>(env, token, query, order_by, limit, out, page, w).
                  nat (limit - int (length out)))")
     auto

declare search_loop.simps [simp del]

text \<open>The slice \<open>xs[:n]\<close>: a negative \<open>n\<close> counts from the end.\<close>

definition slice_to :: "'a list \<Rightarrow> int \<Rightarrow> 'a list" where
  "slice_to xs n = (if 0 \<le> n then take (nat n) xs else take (length xs - nat (- n)) xs)"

text \<open>\<open>search_icons\<close>: the loop from the empty list and page 1, then \<open>return out[:limit]\<close>.\<close>

definition search_icons ::
  "env \<Rightarrow> world \<Rightarrow> string \<Rightarrow> ustr \<Rightarrow> order \<Rightarrow> int \<Rightarrow> (error + icon list) \<times> world" where
  "search_icons env w token query order_by limit =
     (case search_loop env token query order_by limit [] 1 w of
        (Inl e, w') \<Rightarrow> (Inl e, w')
      | (Inr out, w') \<Rightarrow> (Inr (slice_to out limit), w'))"

section \<open>Downloader\<close>

text \<open>The size is sent when \<open>fmt == "png" and size\<close>.\<close>

definition size_param :: "fmt \<Rightarrow> int \<Rightarrow> int option" where
  "size_param fmt sz = (if fmt = Png \<and> sz \<noteq> 0 then Some sz else None)"

text \<open>
  The first lines of \<open>download_icon\<close>, the same in both scripts:
  \<^verbatim>\<open>
  params = {"format": fmt}
  if fmt == "png" and size:
      params["size"] = size
  r = requests.get(url_q, headers=headers, params=params)
  if r.status_code == 404:
      url_p = f"{API_BASE}/item/icon/download/{icon_id}/{fmt}"
      r = requests.get(url_p, headers=headers,
                       params={"size": size} if fmt == "png" and size else None)
  if r.status_code != 200:
      raise RuntimeError(f"Download error for {icon_id}: {r.status_code} {r.text}")
  \<close>
\<close>

definition resolve ::
  "env \<Rightarrow> world \<Rightarrow> string \<Rightarrow> int \<Rightarrow> fmt \<Rightarrow> int \<Rightarrow> (error + response) \<times> world" where
  "resolve env w token icon_id fmt sz =
     (case http env w (ResolveQuery token icon_id fmt (size_param fmt sz)) of
        (Inl e, w1) \<Rightarrow> (Inl e, w1)
      | (Inr r, w1) \<Rightarrow>
          (case (if status_code r = 404
                 then http env w1 (ResolvePath token icon_id fmt (size_param fmt sz))
                 else (Inr r, w1)) of
             (Inl e, w2) \<Rightarrow> (Inl e, w2)
           | (Inr r, w2) \<Rightarrow>
               if status_code r \<noteq> 200
               then (Inl (DownloadError icon_id (status_code r) (body_text r)), w2)
               else (Inr r, w2)))"

text \<open>
  \<open>asset = requests.get(u, stream=True); asset.raise_for_status()\<close>. A URL that is the
  empty string makes \<open>requests.get\<close> raise before anything is sent.
\<close>

definition fetch_asset :: "env \<Rightarrow> world \<Rightarrow> string \<Rightarrow> (error + response) \<times> world" where
  "fetch_asset env w url =
     (if url = [] then (Inl RequestException, w)
      else (case http env w (AssetReq url) of
              (Inl e, w') \<Rightarrow> (Inl e, w')
            | (Inr asset, w') \<Rightarrow>
                if 400 \<le> status_code asset \<and> status_code asset < 600
                then (Inl (HTTPError (status_code asset)), w')
                else (Inr asset, w')))"

text \<open>
  \<open>"Content-Type" in r.headers and ("image/" in r.headers["Content-Type"] or "svg" in
  r.headers["Content-Type"])\<close>, and \<open>"svg" in r.headers["Content-Type"]\<close>.
\<close>

definition image_type :: "response \<Rightarrow> bool" where
  "image_type r =
     (case content_type r of
        None \<Rightarrow> False
      | Some ct \<Rightarrow> sublist (u ''image/'') ct \<or> sublist (u ''svg'') ct)"

definition svg_type :: "response \<Rightarrow> bool" where
  "svg_type r = (case content_type r of None \<Rightarrow> False | Some ct \<Rightarrow> sublist (u ''svg'') ct)"

text \<open>
  The rest of \<open>download_icon\<close> of \<open>scripts/fetch_flaticon.py\<close>, which writes to the
  \<open>dest_path\<close> it is given:
  \<^verbatim>\<open>
  u = None
  try:
      u = r.json()["data"]["url"]
  except Exception:
      pass
  if u:
      asset = requests.get(u, stream=True)
      asset.raise_for_status()
      with open(dest_path, "wb") as fh:
          for chunk in asset.iter_content(8192):
              fh.write(chunk)
      return
  if "Content-Type" in r.headers and (...):
      dest_path.write_bytes(r.content)
      return
  raise RuntimeError(f"Unexpected download response for {icon_id}: {r.text[:500]}")
  \<close>
  Writing a file is taken to succeed.
\<close>

definition download_icon_s ::
  "env \<Rightarrow> world \<Rightarrow> string \<Rightarrow> int \<Rightarrow> fmt \<Rightarrow> int \<Rightarrow> path \<Rightarrow> (error + unit) \<times> world" where
  "download_icon_s env w token icon_id fmt sz dest_path =
     (case resolve env w token icon_id fmt sz of
        (Inl e, w1) \<Rightarrow> (Inl e, w1)
      | (Inr r, w1) \<Rightarrow>
          (case (case j_url r of
                   None \<Rightarrow> None
                 | Some url \<Rightarrow> if url = [] then None else Some url) of
             Some url \<Rightarrow>
               (case fetch_asset env w1 url of
                  (Inl e, w2) \<Rightarrow> (Inl e, w2)
                | (Inr asset, w2) \<Rightarrow> (Inr (), Write dest_path (content asset) # w2))
           | None \<Rightarrow>
               if image_type r then (Inr (), Write dest_path (content r) # w1)
               else (Inl (UnexpectedDownload icon_id (take 500 (body_text r))), w1)))"

text \<open>\<open>str(n)\<close> for an integer: its decimal digits.\<close>

fun str_nat :: "nat \<Rightarrow> ustr" where
  "str_nat n = (if n < 10 then [48 + n] else str_nat (n div 10) @ [48 + n mod 10])"

declare str_nat.simps [simp del]

definition str_int :: "int \<Rightarrow> ustr" where
  "str_int i = (if i < 0 then cp CHR ''-'' # str_nat (nat (- i)) else str_nat (nat i))"

definition fmt_name :: "fmt \<Rightarrow> ustr" where
  "fmt_name fmt = (case fmt of Png \<Rightarrow> u ''png'' | Svg \<Rightarrow> u ''svg'')"

text \<open>
  The rest of \<open>download_icon\<close> of \<open>workflows/fetch_flaticon.py\<close>, which names the file
  after the icon and returns its path:
  \<^verbatim>\<open>
  try:
      u = r.json()["data"]["url"]
  except Exception:
      if "Content-Type" in r.headers and (...):
          ext = "svg" if "svg" in r.headers["Content-Type"] else "png"
          out = dest_dir / f"{icon_id}.{ext}"
          out.write_bytes(r.content)
          return str(out)
      raise RuntimeError(f"Unexpected download response for {icon_id}: {r.text[:500]}")
  asset = requests.get(u, stream=True)
  asset.raise_for_status()
  ext = "svg" if fmt == "svg" else "png"
  out = dest_dir / f"{icon_id}.{ext}"
  with open(out, "wb") as fh:
      for chunk in asset.iter_content(8192):
          fh.write(chunk)
  return str(out)
  \<close>
\<close>

definition download_icon_w ::
  "env \<Rightarrow> world \<Rightarrow> string \<Rightarrow> int \<Rightarrow> fmt \<Rightarrow> int \<Rightarrow> path \<Rightarrow> (error + path) \<times> world" where
  "download_icon_w env w token icon_id fmt sz dest_dir =
     (case resolve env w token icon_id fmt sz of
        (Inl e, w1) \<Rightarrow> (Inl e, w1)
      | (Inr r, w1) \<Rightarrow>
          (case j_url r of
             None \<Rightarrow>
               if image_type r then
                 (let ext = (if svg_type r then u ''svg'' else u ''png'');
                      out = dest_dir @ [str_int icon_id @ u ''.'' @ ext]
                  in (Inr out, Write out (content r) # w1))
               else (Inl (UnexpectedDownload icon_id (take 500 (body_text r))), w1)
           | Some url \<Rightarrow>
               (case fetch_asset env w1 url of
                  (Inl e, w2) \<Rightarrow> (Inl e, w2)
                | (Inr asset, w2) \<Rightarrow>
                    (let ext = (if fmt = Svg then u ''svg'' else u ''png'');
                         out = dest_dir @ [str_int icon_id @ u ''.'' @ ext]
                     in (Inr out, Write out (content asset) # w2)))))"

section \<open>Drivers\<close>

text \<open>
  How a run ends: \<open>sys.exit(n)\<close> or the end of \<open>main\<close> (status 0), or an exception that
  nothing catches, on which the interpreter prints a traceback and exits with status 1.
\<close>

datatype outcome = Exit int | Uncaught error

definition exit_status :: "outcome \<Rightarrow> int" where
  "exit_status oc = (case oc of Exit n \<Rightarrow> n | Uncaught e \<Rightarrow> 1)"

text \<open>\<open>if not api_key\<close>: the variable is unset or empty.\<close>

definition given_key :: "env \<Rightarrow> string option" where
  "given_key env =
     (case api_key_var env of None \<Rightarrow> None | Some k \<Rightarrow> if k = [] then None else Some k)"

text \<open>\<open>if not icon_id\<close> with \<open>icon_id = item.get("id")\<close>: the id is absent or 0.\<close>

definition given_id :: "icon \<Rightarrow> int option" where
  "given_id item =
     (case ident item of None \<Rightarrow> None | Some i \<Rightarrow> if i = 0 then None else Some i)"

text \<open>\<open>out_dir.mkdir(parents=True, exist_ok=True)\<close>.\<close>

definition mkdir_parents :: "env \<Rightarrow> world \<Rightarrow> path \<Rightarrow> (error + unit) \<times> world" where
  "mkdir_parents env w p = (if mkdir_ok env p then (Inr (), Mkdir p # w) else (Inl OSError, w))"

subsection \<open>Batch by label (\<open>scripts/fetch_flaticon.py\<close>)\<close>

text \<open>
  The parsed command line; the lines of the file named by \<open>--file\<close> are \<open>label_file\<close> of
  the environment. \<open>--delay-ms\<close> is stored by \<open>argparse\<close> as the attribute \<open>delay_ms\<close>.
\<close>

record args_s =
  s_format :: fmt
  s_size :: int
  s_order :: order
  s_out :: path
  s_delay_ms :: int

text \<open>
  \<^verbatim>\<open>
  with open(args.file, "r", encoding="utf-8") as fh:
      for line in fh:
          s = line.strip()
          if s and not s.startswith("#"):
              labels.append(s)
  \<close>
\<close>

definition read_labels :: "env \<Rightarrow> error + ustr list" where
  "read_labels env =
     (case label_file env of
        None \<Rightarrow> Inl OSError
      | Some lines \<Rightarrow> Inr (filter (\<lambda>s. s \<noteq> [] \<and> \<not> prefix (u ''#'') s) (map strip lines)))"

text \<open>
  \<open>ext = "svg" if args.format == "svg" else "png"\<close> and
  \<open>dest_path = out_dir / f"{filename_base}.{ext}"\<close>.
\<close>

definition dest_path_s :: "args_s \<Rightarrow> ustr \<Rightarrow> path" where
  "dest_path_s args filename_base =
     s_out args @ [filename_base @ u ''.'' @ (if s_format args = Svg then u ''svg'' else u ''png'')]"

text \<open>
  The \<open>try\<close> block of the loop with its \<open>except Exception\<close> handler; it raises nothing and
  returns the two counters:
  \<^verbatim>\<open>
  try:
      icon = search_first_icon(token, q, order_by=args.order)
      if not icon:
          failures += 1
          print(f"MISS | label='{label}' | query='{q}' | reason=no results", file=sys.stderr)
      else:
          icon_id = icon.get("id")
          if not icon_id:
              failures += 1
              print(f"MISS | label='{label}' | query='{q}' | reason=missing id", file=sys.stderr)
          else:
              download_icon(token, icon_id, args.format, args.size, dest_path)
              successes += 1
              print(f"OK   | label='{label}' | query='{q}' | id={icon_id} | -> {dest_path}")
  except Exception as e:
      failures += 1
      print(f"ERR  | label='{label}' | query='{q}' | {e}", file=sys.stderr)
  \<close>
\<close>

definition try_label ::
  "env \<Rightarrow> world \<Rightarrow> args_s \<Rightarrow> string \<Rightarrow> ustr \<Rightarrow> ustr \<Rightarrow> path \<Rightarrow> nat \<times> nat
     \<Rightarrow> (nat \<times> nat) \<times> world" where
  "try_label env w args token label q dest_path counts =
     (case counts of (successes, failures) \<Rightarrow>
        (case search_first_icon env w token q (s_order args) of
           (Inl e, w1) \<Rightarrow> ((successes, failures + 1), Stderr (ErrLine label q e) # w1)
         | (Inr None, w1) \<Rightarrow>
             ((successes, failures + 1), Stderr (MissLine label q ''no results'') # w1)
         | (Inr (Some icon), w1) \<Rightarrow>
             if ident icon = None \<and> \<not> other_fields icon
             then ((successes, failures + 1), Stderr (MissLine label q ''no results'') # w1)
             else (case given_id icon of
                     None \<Rightarrow>
                       ((successes, failures + 1),
                        Stderr (MissLine label q ''missing id'') # w1)
                   | Some icon_id \<Rightarrow>
                       (case download_icon_s env w1 token icon_id (s_format args)
                               (s_size args) dest_path of
                          (Inl e, w2) \<Rightarrow>
                            ((successes, failures + 1), Stderr (ErrLine label q e) # w2)
                        | (Inr _, w2) \<Rightarrow>
                            ((successes + 1, failures),
                             Stdout (OkLine label q icon_id dest_path) # w2)))))"

text \<open>
  \<open>time.sleep(max(0.0, args.delay-ms / 1000.0))\<close>: the argument is the difference of
  \<open>args.delay\<close> and \<open>ms / 1000.0\<close>, and \<open>args.delay\<close>, evaluated first, is not an attribute
  of the namespace.
\<close>

definition sleep_delay :: "args_s \<Rightarrow> error + unit" where
  "sleep_delay args = Inl (AttributeError ''delay'')"

text \<open>
  The loop \<open>for label in labels\<close>. The query, the file name and the destination are
  computed before the \<open>try\<close> block and the pause comes after it, so what they raise leaves
  the loop.
\<close>

fun process_labels ::
  "(ustr \<Rightarrow> ustr) \<Rightarrow> env \<Rightarrow> args_s \<Rightarrow> string \<Rightarrow> ustr list \<Rightarrow> nat \<times> nat \<Rightarrow> world
     \<Rightarrow> (error + nat \<times> nat) \<times> world" where
  "process_labels lower env args token [] counts w = (Inr counts, w)"
| "process_labels lower env args token (label # labels) counts w =
     (case safe_filename_s lower label of
        Inl e \<Rightarrow> (Inl e, w)
      | Inr filename_base \<Rightarrow>
          (case try_label env w args token label (normalize_query lower label)
                  (dest_path_s args filename_base) counts of
             (counts', w') \<Rightarrow>
               (case sleep_delay args of
                  Inl e \<Rightarrow> (Inl e, w')
                | Inr _ \<Rightarrow> process_labels lower env args token labels counts' w')))"

definition main_s :: "(ustr \<Rightarrow> ustr) \<Rightarrow> env \<Rightarrow> args_s \<Rightarrow> world \<Rightarrow> outcome \<times> world" where
  "main_s lower env args w =
     (case given_key env of
        None \<Rightarrow> (Exit 2, Stderr NoKey # w)
      | Some api_key \<Rightarrow>
          (case mkdir_parents env w (s_out args) of
             (Inl e, w1) \<Rightarrow> (Uncaught e, w1)
           | (Inr _, w1) \<Rightarrow>
               (case get_token env w1 api_key of
                  (Inl e, w2) \<Rightarrow> (Uncaught e, w2)
                | (Inr token, w2) \<Rightarrow>
                    (case read_labels env of
                       Inl e \<Rightarrow> (Uncaught e, w2)
                     | Inr labels \<Rightarrow>
                         (case process_labels lower env args token labels (0, 0) w2 of
                            (Inl e, w3) \<Rightarrow> (Uncaught e, w3)
                          | (Inr (successes, failures), w3) \<Rightarrow>
                              (Exit 0,
                               Stdout (DoneLabels successes failures (s_out args)) # w3))))))"

subsection \<open>Batch by query (\<open>workflows/fetch_flaticon.py\<close>)\<close>

record args_w =
  w_query :: ustr
  w_limit :: int
  w_format :: fmt
  w_size :: int
  w_order :: order
  w_out :: path

text \<open>
  The loop over the search results; \<open>continue\<close> skips the rest of the body:
  \<^verbatim>\<open>
  for item in results:
      icon_id = item.get("id")
      if not icon_id:
          continue
      try:
          path = download_icon(token, icon_id, args.format, args.size, out_dir)
          downloaded += 1
          print(f"(check mark) {icon_id} (arrow) {path}")
      except Exception as e:
          print(f"(cross mark) {icon_id} (arrow) {e}", file=sys.stderr)
      time.sleep(0.15)
  \<close>
  (the marks and the arrow are single non-ASCII characters in the source).
\<close>

fun download_all ::
  "env \<Rightarrow> args_w \<Rightarrow> string \<Rightarrow> icon list \<Rightarrow> nat \<Rightarrow> world \<Rightarrow> nat \<times> world" where
  "download_all env args token [] downloaded w = (downloaded, w)"
| "download_all env args token (item # results) downloaded w =
     (case given_id item of
        None \<Rightarrow> download_all env args token results downloaded w
      | Some icon_id \<Rightarrow>
          (case download_icon_w env w token icon_id (w_format args) (w_size args)
                  (w_out args) of
             (Inl e, w') \<Rightarrow>
               download_all env args token results downloaded
                 (Stderr (Failed icon_id e) # w')
           | (Inr file, w') \<Rightarrow>
               download_all env args token results (downloaded + 1)
                 (Stdout (Downloaded icon_id file) # w')))"

definition main_w :: "env \<Rightarrow> args_w \<Rightarrow> world \<Rightarrow> outcome \<times> world" where
  "main_w env args w =
     (case given_key env of
        None \<Rightarrow> (Exit 2, Stderr NoKey # w)
      | Some api_key \<Rightarrow>
          (case mkdir_parents env w (w_out args) of
             (Inl e, w1) \<Rightarrow> (Uncaught e, w1)
           | (Inr _, w1) \<Rightarrow>
               (case get_token env w1 api_key of
                  (Inl e, w2) \<Rightarrow> (Uncaught e, w2)
                | (Inr token, w2) \<Rightarrow>
                    (case search_icons env w2 token (w_query args) (w_order args)
                            (w_limit args) of
                       (Inl e, w3) \<Rightarrow> (Uncaught e, w3)
                     | (Inr results, w3) \<Rightarrow>
                         (case download_all env args token results 0
                                 (Stdout (Found (length results) (w_limit args)) # w3) of
                            (downloaded, w4) \<Rightarrow>
                              (Exit 0, Stdout (DoneQuery downloaded (w_out args)) # w4))))))"

section \<open>Reading a world\<close>

text \<open>The requests to the download endpoint in a world, in the order they were issued.\<close>

fun resolve_requests :: "world \<Rightarrow> request list" where
  "resolve_requests [] = []"
| "resolve_requests (Request (ResolveQuery token icon_id fmt sz) # w) =
     resolve_requests w @ [ResolveQuery token icon_id fmt sz]"
| "resolve_requests (Request (ResolvePath token icon_id fmt sz) # w) =
     resolve_requests w @ [ResolvePath token icon_id fmt sz]"
| "resolve_requests (e # w) = resolve_requests w"

text \<open>The files written in a world, in the order they were written.\<close>

fun files_written :: "world \<Rightarrow> path list" where
  "files_written [] = []"
| "files_written (Write file b # w) = files_written w @ [file]"
| "files_written (e # w) = files_written w"

text \<open>The extension of a file name: what follows its last period.\<close>

definition extension :: "ustr \<Rightarrow> ustr" where
  "extension name = rev (takeWhile (\<lambda>c. c \<noteq> cp CHR ''.'') (rev name))"

text \<open>
  The requests in a world, in the order they were issued, each with the answer it got.
\<close>

fun exchanges :: "env \<Rightarrow> world \<Rightarrow> (request \<times> response option) list" where
  "exchanges env [] = []"
| "exchanges env (Request req # w) = exchanges env w @ [(req, net env (Request req # w))]"
| "exchanges env (e # w) = exchanges env w"

text \<open>
  What the Searcher's contract says of the exchanges of one search, from a state with
  \<open>acc\<close> records accumulated and \<open>page\<close> to be requested next. No request is made once
  the limit is reached. A request asks page \<open>page\<close> for \<open>min(100, limit - acc)\<close> records.
  It is the last one unless its answer allows a further page: status 200, a JSON body, at
  least one record, and metadata whose page number is below its total; then the search
  goes on with the records added and the next page.
\<close>

definition further_pages :: "response option \<Rightarrow> bool" where
  "further_pages resp =
     (case resp of
        None \<Rightarrow> False
      | Some r \<Rightarrow>
          status_code r = 200 \<and> is_json r \<and> items_of r \<noteq> [] \<and> meta_page r < meta_total r)"

definition page_size :: "response option \<Rightarrow> int" where
  "page_size resp = (case resp of None \<Rightarrow> 0 | Some r \<Rightarrow> int (length (items_of r)))"

fun paginated ::
  "string \<Rightarrow> order \<Rightarrow> ustr \<Rightarrow> int \<Rightarrow> int \<Rightarrow> int \<Rightarrow> (request \<times> response option) list \<Rightarrow> bool" where
  "paginated token order_by query limit acc page [] = (limit \<le> acc)"
| "paginated token order_by query limit acc page ((req, resp) # rest) =
     (acc < limit \<and>
      req = SearchReq token order_by query (min 100 (limit - acc)) page \<and>
      (if further_pages resp
       then paginated token order_by query limit (acc + page_size resp) (page + 1) rest
       else rest = []))"

text \<open>
  The directories that exist because of the \<open>mkdir\<close> calls of a world: each path made,
  with its parents.
\<close>

fun directories :: "world \<Rightarrow> path list" where
  "directories [] = []"
| "directories (Mkdir p # w) = directories w @ tl (prefixes p)"
| "directories (e # w) = directories w"

text \<open>The two errors \<open>get_token\<close> itself raises: authentication failed.\<close>

definition auth_error :: "error \<Rightarrow> bool" where
  "auth_error e =
     (case e of AuthFailed status body \<Rightarrow> True | AuthMissingToken \<Rightarrow> True | _ \<Rightarrow> False)"

subsection \<open>Overlaps of the two sides of a rule\<close>


section \<open>Example runs\<close>

text \<open>
  A server that answers every request with status 200, a token, one search result with
  id 11 and an asset URL; an environment with that server, the API key \<open>K\<close> and a label
  file with the one line \<open>guitar\<close>; and the default command line of the batch-by-label
  driver.
\<close>

definition happy_response :: response where
  "happy_response =
     \<lparr>status_code = 200, body_text = [], is_json = True, j_token = Some ''T1'',
      j_data = Some [Icon (Some 11) True], j_metadata = None,
      j_url = Some ''https://cdn/11.png'', content_type = Some (u ''image/png''),
      content = [80, 78, 71]\<rparr>"

definition happy_env :: env where
  "happy_env =
     \<lparr>api_key_var = Some ''K'', net = (\<lambda>w. Some happy_response), mkdir_ok = (\<lambda>p. True),
      label_file = Some [u ''guitar'']\<rparr>"

definition default_args_s :: args_s where
  "default_args_s =
     \<lparr>s_format = Png, s_size = 128, s_order = Priority, s_out = [u ''icons''],
      s_delay_ms = 200\<rparr>"

text \<open>
  A server that answers the query-style download request with 404 and the path-style
  request with 500.
\<close>

definition retry_server :: "world \<Rightarrow> response option" where
  "retry_server w =
     (case w of
        Request (ResolveQuery token icon_id fmt sz) # w' \<Rightarrow>
          Some (happy_response\<lparr>status_code := 404, body_text := ''not found''\<rparr>)
      | Request (ResolvePath token icon_id fmt sz) # w' \<Rightarrow>
          Some (happy_response\<lparr>status_code := 500, body_text := ''boom''\<rparr>)
      | _ \<Rightarrow> Some happy_response)"

definition retry_env :: env where
  "retry_env = happy_env\<lparr>net := retry_server\<rparr>"

text \<open>
  A server that answers every request with status 200 and a body that is not JSON, of
  content type \<open>image/png\<close>.
\<close>

definition direct_server :: "world \<Rightarrow> response option" where
  "direct_server w =
     Some (happy_response\<lparr>is_json := False, j_url := None,
                           content_type := Some (u ''image/png'')\<rparr>)"

definition direct_env :: env where
  "direct_env = happy_env\<lparr>net := direct_server\<rparr>"

text \<open>
  A server with five results in all that answers a search for page \<open>p\<close> with two records,
  whatever number was asked for; and a server whose metadata has no total and the count 1.
\<close>

definition paged_server :: "world \<Rightarrow> response option" where
  "paged_server w =
     (case w of
        Request (SearchReq token order_by query limit page) # w' \<Rightarrow>
          Some (happy_response
                  \<lparr>j_data := Some [Icon (Some (10 * page + 1)) True, Icon (Some (10 * page + 2)) True],
                   j_metadata := Some \<lparr>m_page = Some page, m_total = Some 5, m_count = None\<rparr>\<rparr>)
      | _ \<Rightarrow> Some happy_response)"

definition paged_env :: env where
  "paged_env = happy_env\<lparr>net := paged_server\<rparr>"

definition single_server :: "world \<Rightarrow> response option" where
  "single_server w =
     Some (happy_response
             \<lparr>j_metadata := Some \<lparr>m_page = Some 1, m_total = None, m_count = Some 1\<rparr>\<rparr>)"

definition single_env :: env where
  "single_env = happy_env\<lparr>net := single_server\<rparr>"

text \<open>
  The default command line of the batch-by-query driver, for the query \<open>api\<close>; a server
  whose search result has no id; and a server that answers everything with status 401.
\<close>

definition default_args_w :: args_w where
  "default_args_w =
     \<lparr>w_query = u ''api'', w_limit = 10, w_format = Png, w_size = 128, w_order = Priority,
      w_out = [u ''icons'']\<rparr>"

definition no_id_server :: "world \<Rightarrow> response option" where
  "no_id_server w = Some (happy_response\<lparr>j_data := Some [Icon None True]\<rparr>)"

definition no_id_env :: env where
  "no_id_env = happy_env\<lparr>net := no_id_server\<rparr>"

definition denied_server :: "world \<Rightarrow> response option" where
  "denied_server w = Some (happy_response\<lparr>status_code := 401, body_text := ''denied''\<rparr>)"

definition denied_env :: env where
  "denied_env = happy_env\<lparr>net := denied_server\<rparr>"

section \<open>Properties of the filename sanitizers\<close>

text \<open>
  The sanitizer of \<open>workflows/fetch_flaticon.py\<close> returns, for every input and whatever
  \<open>str.lower\<close> does, a non-empty string over \<open>[a-z0-9._-]\<close> that neither starts nor ends
  with a hyphen, and \<open>icon\<close> when no character of the trimmed, lower-cased input is in
  \<open>[a-z0-9._]\<close>.
\<close>

lemma set_re_sub_runs: "set (re_sub_runs P rep s) \<subseteq> set rep \<union> {c \<in> set s. \<not> P c}"
proof (induction P rep s rule: re_sub_runs.induct)
  case (1 P rep)
  then show ?case by simp
next
  case (2 P rep c cs)
  show ?case
  proof (cases "P c")
    case True
    have "set (dropWhile P cs) \<subseteq> set cs" by (auto dest: set_dropWhileD)
    with 2(1)[OF True] True show ?thesis by auto
  next
    case False
    with 2(2)[OF False] show ?thesis by auto
  qed
qed

lemma set_dropWhile_subset: "set (dropWhile P xs) \<subseteq> set xs"
  by (auto dest: set_dropWhileD)

lemma set_strip_chars: "set (strip_chars P s) \<subseteq> set s"
proof -
  have "set (strip_chars P s) \<subseteq> set (rev (dropWhile P s))"
    unfolding strip_chars_def using set_dropWhile_subset[of P "rev (dropWhile P s)"] by simp
  also have "\<dots> \<subseteq> set s" using set_dropWhile_subset[of P s] by simp
  finally show ?thesis .
qed

lemma strip_chars_ends:
  assumes "strip_chars P s \<noteq> []"
  shows "\<not> P (hd (strip_chars P s))" and "\<not> P (last (strip_chars P s))"
proof -
  let ?x = "dropWhile P s"
  let ?y = "dropWhile P (rev ?x)"
  from assms have y: "?y \<noteq> []" by (simp add: strip_chars_def)
  then have x: "?x \<noteq> []" by (metis dropWhile.simps(1) rev.simps(1))
  have "last (strip_chars P s) = hd ?y" by (simp add: strip_chars_def last_rev)
  then show "\<not> P (last (strip_chars P s))" using y hd_dropWhile by metis
  have "hd (strip_chars P s) = last ?y" by (simp add: strip_chars_def hd_rev)
  also have "\<dots> = last (rev ?x)"
    using y by (metis last_appendR takeWhile_dropWhile_id)
  also have "\<dots> = hd ?x" using x by (simp add: last_rev)
  finally show "\<not> P (hd (strip_chars P s))" using x hd_dropWhile by metis
qed

lemma strip_chars_all:
  assumes "\<forall>c \<in> set s. P c"
  shows "strip_chars P s = []"
proof -
  from assms have d: "dropWhile P s = []" by (induction s) simp_all
  show ?thesis unfolding strip_chars_def d by simp
qed

lemma cp_hyphen: "filename_char (cp CHR ''-'')" by (simp add: filename_char_def)

lemma u_icon: "u ''icon'' = [105, 99, 111, 110]" by (simp add: u_def cp_def)

lemma safe_filename_w_chars: "\<forall>c \<in> set (safe_filename_w lower text). filename_char c"
proof -
  let ?t = "lower (strip text)"
  let ?a = "re_sub_runs (\<lambda>c. \<not> filename_char c) (u ''-'') ?t"
  let ?b = "re_sub_runs (\<lambda>c. c = cp CHR ''-'') (u ''-'') ?a"
  have a: "\<forall>c \<in> set ?a. filename_char c"
    using set_re_sub_runs[of "\<lambda>c. \<not> filename_char c" "u ''-''" ?t] cp_hyphen
    by (auto simp: u_def)
  have b: "\<forall>c \<in> set ?b. filename_char c"
    using set_re_sub_runs[of "\<lambda>c. c = cp CHR ''-''" "u ''-''" ?a] a cp_hyphen
    by (auto simp: u_def)
  have c: "\<forall>c \<in> set (strip_chars (\<lambda>c. c = cp CHR ''-'') ?b). filename_char c"
    using b set_strip_chars by blast
  have i: "\<forall>c \<in> set (u ''icon''). filename_char c"
    by (simp add: u_icon filename_char_def cp_def)
  show ?thesis unfolding safe_filename_w_def Let_def using c i by simp
qed

lemma safe_filename_w_nonempty: "safe_filename_w lower text \<noteq> []"
  unfolding safe_filename_w_def Let_def by (simp add: u_icon)

lemma safe_filename_w_ends:
  "hd (safe_filename_w lower text) \<noteq> cp CHR ''-'' \<and> last (safe_filename_w lower text) \<noteq> cp CHR ''-''"
proof -
  let ?r = "strip_chars (\<lambda>c. c = cp CHR ''-'')
             (re_sub_runs (\<lambda>c. c = cp CHR ''-'') (u ''-'')
               (re_sub_runs (\<lambda>c. \<not> filename_char c) (u ''-'') (lower (strip text))))"
  show ?thesis
  proof (cases "?r = []")
    case True
    then have "safe_filename_w lower text = u ''icon''" by (simp add: safe_filename_w_def Let_def)
    then show ?thesis by (simp add: u_icon cp_def)
  next
    case False
    then have "safe_filename_w lower text = ?r" by (simp add: safe_filename_w_def Let_def)
    with strip_chars_ends[OF False] show ?thesis by simp
  qed
qed

lemma safe_filename_w_fallback:
  assumes "\<forall>c \<in> set (lower (strip text)). \<not> filename_char c \<or> c = cp CHR ''-''"
  shows "safe_filename_w lower text = u ''icon''"
proof -
  let ?t = "lower (strip text)"
  let ?a = "re_sub_runs (\<lambda>c. \<not> filename_char c) (u ''-'') ?t"
  let ?b = "re_sub_runs (\<lambda>c. c = cp CHR ''-'') (u ''-'') ?a"
  have a: "\<forall>c \<in> set ?a. c = cp CHR ''-''"
    using set_re_sub_runs[of "\<lambda>c. \<not> filename_char c" "u ''-''" ?t] assms
    by (auto simp: u_def)
  have b: "\<forall>c \<in> set ?b. c = cp CHR ''-''"
    using set_re_sub_runs[of "\<lambda>c. c = cp CHR ''-''" "u ''-''" ?a] a
    by (auto simp: u_def)
  have "strip_chars (\<lambda>c. c = cp CHR ''-'') ?b = []"
    using b by (intro strip_chars_all) simp
  then show ?thesis by (simp add: safe_filename_w_def Let_def)
qed

text \<open>
  The sanitizer of \<open>scripts/fetch_flaticon.py\<close> returns for no input: its third line
  raises \<open>TypeError\<close>.
\<close>

lemma safe_filename_s_raises:
  "safe_filename_s lower text = Inl (TypeError ''string'')"
  by (simp add: safe_filename_s_def re_sub_def Let_def)

text \<open>
  Claim C2. Each script's \<open>safe_filename\<close> should return, for every input string, a
  non-empty string matching \<open>[a-z0-9._-]+\<close> without leading or trailing hyphen. On the
  label \<open>Guitar\<close> the sanitizer of \<open>scripts/fetch_flaticon.py\<close> returns no string at all:
  it raises \<open>TypeError\<close>, where the sanitizer of \<open>workflows/fetch_flaticon.py\<close> returns
  \<open>guitar\<close>.
\<close>

theorem safe_filename_s_Guitar:
  "safe_filename_s ascii_lower (u ''Guitar'') = Inl (TypeError ''string'') \<and>
   safe_filename_w ascii_lower (u ''Guitar'') = u ''guitar''"
proof -
  have "safe_filename_s ascii_lower (u ''Guitar'') = Inl (TypeError ''string'')"
    by (simp add: safe_filename_s_def re_sub_def Let_def)
  moreover have "safe_filename_w ascii_lower (u ''Guitar'') = u ''guitar''"
    unfolding safe_filename_w_def Let_def
    by (simp add: u_def cp_def strip_def strip_chars_def isspace_def ascii_lower_def
        filename_char_def)
  ultimately show ?thesis by simp
qed

section \<open>Properties of the query normalizer\<close>

subsection \<open>Replacing a pattern\<close>





subsection \<open>The rules of the table\<close>










text \<open>
  Three more labels, one for each other way the returned query escapes the claim: a later
  rule (\<open>japanes\<close>) rewrites the \<open>v\<close> of \<open>sub category\<close>; and the replacements of the
  rules \<open>euro dance\<close> and \<open>euro organ artist\<close> put their own \<open>k\<close> together again.
\<close>

lemma normalize_query_later_rule:
  "normalize_query ascii_lower (u ''japanesub category'') = u ''japaneseubcategory''"
  unfolding normalize_query_def Let_def dash_key_def fixes_table_def
  by (simp add: u_def cp_def strip_def strip_chars_def isspace_def ascii_lower_def
      sublist_Cons_right)

lemma normalize_query_euro_dance:
  "normalize_query ascii_lower (u ''euro danceuro dance'') = u ''eurodanceuro dance''"
  unfolding normalize_query_def Let_def dash_key_def fixes_table_def
  by (simp add: u_def cp_def strip_def strip_chars_def isspace_def ascii_lower_def
      sublist_Cons_right)

lemma normalize_query_euro_organ_artist:
  "normalize_query ascii_lower (u ''euro euro organ artist'') = u ''euro organ artist''"
  unfolding normalize_query_def Let_def dash_key_def fixes_table_def
  by (simp add: u_def cp_def strip_def strip_chars_def isspace_def ascii_lower_def
      sublist_Cons_right)

section \<open>Properties of the downloader\<close>

text \<open>The shared first part of \<open>download_icon\<close>, case by case.\<close>

lemma resolve_cases:
  "resolve env w token icon_id fmt sz =
     (case net env (Request (ResolveQuery token icon_id fmt (size_param fmt sz)) # w) of
        None \<Rightarrow>
          (Inl RequestException, Request (ResolveQuery token icon_id fmt (size_param fmt sz)) # w)
      | Some a \<Rightarrow>
          if status_code a = 404 then
            (case net env (Request (ResolvePath token icon_id fmt (size_param fmt sz)) #
                           Request (ResolveQuery token icon_id fmt (size_param fmt sz)) # w) of
               None \<Rightarrow>
                 (Inl RequestException,
                  Request (ResolvePath token icon_id fmt (size_param fmt sz)) #
                  Request (ResolveQuery token icon_id fmt (size_param fmt sz)) # w)
             | Some b \<Rightarrow>
                 (if status_code b \<noteq> 200
                  then Inl (DownloadError icon_id (status_code b) (body_text b)) else Inr b,
                  Request (ResolvePath token icon_id fmt (size_param fmt sz)) #
                  Request (ResolveQuery token icon_id fmt (size_param fmt sz)) # w))
          else
            (if status_code a \<noteq> 200
             then Inl (DownloadError icon_id (status_code a) (body_text a)) else Inr a,
             Request (ResolveQuery token icon_id fmt (size_param fmt sz)) # w))"
  by (simp add: resolve_def http_def split: option.splits)

lemma fetch_asset_requests:
  "fetch_asset env w url = (res, w') \<Longrightarrow> resolve_requests w' = resolve_requests w"
  by (auto simp: fetch_asset_def http_def split: option.splits if_splits)

lemma download_icon_s_requests:
  "resolve_requests (snd (download_icon_s env w token icon_id fmt sz dest)) =
     resolve_requests (snd (resolve env w token icon_id fmt sz))"
  by (auto simp: download_icon_s_def split: prod.splits sum.splits option.splits
      dest: fetch_asset_requests)

lemma download_icon_w_requests:
  "resolve_requests (snd (download_icon_w env w token icon_id fmt sz dest)) =
     resolve_requests (snd (resolve env w token icon_id fmt sz))"
  by (auto simp: download_icon_w_def Let_def split: prod.splits sum.splits option.splits
      dest: fetch_asset_requests)

lemma download_icon_s_error:
  "resolve env w token icon_id fmt sz = (Inl e, w1) \<Longrightarrow>
     download_icon_s env w token icon_id fmt sz dest = (Inl e, w1)"
  by (simp add: download_icon_s_def)

lemma download_icon_w_error:
  "resolve env w token icon_id fmt sz = (Inl e, w1) \<Longrightarrow>
     download_icon_w env w token icon_id fmt sz dest = (Inl e, w1)"
  by (simp add: download_icon_w_def)

text \<open>
  Claim C3. In both scripts \<open>download_icon\<close> first issues the query-style request (the
  size is sent only for png). When that request is answered, the path-style request, with
  the same size, is issued exactly when the answer has status 404, and no other request
  goes to the download endpoint. When the final answer (of the retry if there was one,
  else of the first request) has a status other than 200, \<open>download_icon\<close> fails with a
  download error carrying that status and body, and nothing else was done to the world.
\<close>

theorem download_icon_retry:
  assumes first: "net env (Request (ResolveQuery token icon_id fmt (size_param fmt sz)) # w) =
                    Some first"
    and final: "(if status_code first = 404
                 then net env (Request (ResolvePath token icon_id fmt (size_param fmt sz)) #
                               Request (ResolveQuery token icon_id fmt (size_param fmt sz)) # w)
                 else Some first) = Some final"
  shows "resolve_requests (snd (download_icon_s env w token icon_id fmt sz dest_path)) =
           resolve_requests w @
           (if status_code first = 404
            then [ResolveQuery token icon_id fmt (size_param fmt sz),
                  ResolvePath token icon_id fmt (size_param fmt sz)]
            else [ResolveQuery token icon_id fmt (size_param fmt sz)]) \<and>
         resolve_requests (snd (download_icon_w env w token icon_id fmt sz dest_dir)) =
           resolve_requests w @
           (if status_code first = 404
            then [ResolveQuery token icon_id fmt (size_param fmt sz),
                  ResolvePath token icon_id fmt (size_param fmt sz)]
            else [ResolveQuery token icon_id fmt (size_param fmt sz)]) \<and>
         (fmt \<noteq> Png \<longrightarrow> size_param fmt sz = None) \<and>
         (status_code final \<noteq> 200 \<longrightarrow>
            download_icon_s env w token icon_id fmt sz dest_path =
              (Inl (DownloadError icon_id (status_code final) (body_text final)),
               if status_code first = 404
               then Request (ResolvePath token icon_id fmt (size_param fmt sz)) #
                    Request (ResolveQuery token icon_id fmt (size_param fmt sz)) # w
               else Request (ResolveQuery token icon_id fmt (size_param fmt sz)) # w) \<and>
            download_icon_w env w token icon_id fmt sz dest_dir =
              (Inl (DownloadError icon_id (status_code final) (body_text final)),
               if status_code first = 404
               then Request (ResolvePath token icon_id fmt (size_param fmt sz)) #
                    Request (ResolveQuery token icon_id fmt (size_param fmt sz)) # w
               else Request (ResolveQuery token icon_id fmt (size_param fmt sz)) # w))"
proof -
  let ?q = "ResolveQuery token icon_id fmt (size_param fmt sz)"
  let ?p = "ResolvePath token icon_id fmt (size_param fmt sz)"
  have reqs: "resolve_requests (snd (resolve env w token icon_id fmt sz)) =
                resolve_requests w @ (if status_code first = 404 then [?q, ?p] else [?q])"
    using first by (simp add: resolve_cases split: option.splits)
  have err: "resolve env w token icon_id fmt sz =
               (Inl (DownloadError icon_id (status_code final) (body_text final)),
                if status_code first = 404 then Request ?p # Request ?q # w else Request ?q # w)"
    if "status_code final \<noteq> 200"
    using first final that by (auto simp: resolve_cases split: if_splits)
  have sz: "fmt \<noteq> Png \<longrightarrow> size_param fmt sz = None" by (simp add: size_param_def)
  show ?thesis
    using reqs sz download_icon_s_error[OF err] download_icon_w_error[OF err]
    by (auto simp: download_icon_s_requests download_icon_w_requests)
qed

text \<open>
  With a server that answers 404 to the query-style request and 500 to the path-style
  request, both scripts issue the two requests and fail with the status and body of the
  second answer.
\<close>

theorem download_icon_retry_witness:
  "net retry_env [Request (ResolveQuery ''T1'' 11 Png (size_param Png 128))] =
     Some (happy_response\<lparr>status_code := 404, body_text := ''not found''\<rparr>) \<and>
   net retry_env [Request (ResolvePath ''T1'' 11 Png (size_param Png 128)),
                  Request (ResolveQuery ''T1'' 11 Png (size_param Png 128))] =
     Some (happy_response\<lparr>status_code := 500, body_text := ''boom''\<rparr>) \<and>
   size_param Png 128 = Some 128 \<and> size_param Svg 128 = None \<and>
   resolve_requests (snd (download_icon_s retry_env [] ''T1'' 11 Png 128 [u ''icons'', u ''guitar.png''])) =
     [ResolveQuery ''T1'' 11 Png (Some 128), ResolvePath ''T1'' 11 Png (Some 128)] \<and>
   resolve_requests (snd (download_icon_w retry_env [] ''T1'' 11 Png 128 [u ''icons''])) =
     [ResolveQuery ''T1'' 11 Png (Some 128), ResolvePath ''T1'' 11 Png (Some 128)] \<and>
   download_icon_s retry_env [] ''T1'' 11 Png 128 [u ''icons'', u ''guitar.png''] =
     (Inl (DownloadError 11 500 ''boom''),
      [Request (ResolvePath ''T1'' 11 Png (Some 128)),
       Request (ResolveQuery ''T1'' 11 Png (Some 128))]) \<and>
   download_icon_w retry_env [] ''T1'' 11 Png 128 [u ''icons''] =
     (Inl (DownloadError 11 500 ''boom''),
      [Request (ResolvePath ''T1'' 11 Png (Some 128)),
       Request (ResolveQuery ''T1'' 11 Png (Some 128))])"
proof -
  let ?first = "happy_response\<lparr>status_code := 404, body_text := ''not found''\<rparr>"
  let ?final = "happy_response\<lparr>status_code := 500, body_text := ''boom''\<rparr>"
  have first: "net retry_env [Request (ResolveQuery ''T1'' 11 Png (size_param Png 128))] =
                 Some ?first"
    by (simp add: retry_env_def retry_server_def size_param_def)
  have second: "net retry_env [Request (ResolvePath ''T1'' 11 Png (size_param Png 128)),
                  Request (ResolveQuery ''T1'' 11 Png (size_param Png 128))] = Some ?final"
    by (simp add: retry_env_def retry_server_def size_param_def)
  have final: "(if status_code ?first = 404
                then net retry_env [Request (ResolvePath ''T1'' 11 Png (size_param Png 128)),
                       Request (ResolveQuery ''T1'' 11 Png (size_param Png 128))]
                else Some ?first) = Some ?final"
    using second by simp
  have sz: "size_param Png 128 = Some 128" "size_param Svg 128 = None"
    by (simp_all add: size_param_def)
  from download_icon_retry[OF first final, of "[u ''icons'', u ''guitar.png'']" "[u ''icons'']"]
    first second sz
  show ?thesis by simp
qed

subsection \<open>The file a download writes\<close>

lemma extension_append:
  "cp CHR ''.'' \<notin> set ext \<Longrightarrow> extension (base @ u ''.'' @ ext) = ext"
proof -
  assume a: "cp CHR ''.'' \<notin> set ext"
  have "rev (base @ u ''.'' @ ext) = rev ext @ cp CHR ''.'' # rev base"
    by (simp add: u_def)
  moreover have "takeWhile (\<lambda>c. c \<noteq> cp CHR ''.'') (rev ext @ cp CHR ''.'' # rev base) = rev ext"
    using a by (simp add: takeWhile_append)
  ultimately show ?thesis by (simp add: extension_def)
qed

lemma ext_no_dot: "cp CHR ''.'' \<notin> set (u ''png'')" "cp CHR ''.'' \<notin> set (u ''svg'')"
  by (simp_all add: u_def cp_def)

lemma fetch_asset_files:
  "fetch_asset env w url = (res, w') \<Longrightarrow> files_written w' = files_written w"
  by (auto simp: fetch_asset_def http_def split: option.splits if_splits)

lemma resolve_files:
  "resolve env w token icon_id fmt sz = (res, w') \<Longrightarrow> files_written w' = files_written w"
  by (auto simp: resolve_cases split: option.splits if_splits)

lemma download_icon_w_file:
  assumes "download_icon_w env w token icon_id fmt sz dest_dir = (Inr file, w')"
  shows "\<exists>r w1. resolve env w token icon_id fmt sz = (Inr r, w1) \<and>
           files_written w' = files_written w @ [file] \<and>
           butlast file = dest_dir \<and>
           extension (last file) =
             (case j_url r of
                Some url \<Rightarrow> fmt_name fmt
              | None \<Rightarrow> if svg_type r then u ''svg'' else u ''png'')"
proof -
  obtain res w1 where rs: "resolve env w token icon_id fmt sz = (res, w1)"
    by (cases "resolve env w token icon_id fmt sz")
  with assms obtain r where r: "res = Inr r"
    by (cases res) (auto simp: download_icon_w_def)
  have w1: "files_written w1 = files_written w" using rs by (rule resolve_files)
  show ?thesis
  proof (cases "j_url r")
    case None
    with assms rs r have im: "image_type r"
      and f: "file = dest_dir @ [str_int icon_id @ u ''.'' @ (if svg_type r then u ''svg'' else u ''png'')]"
      and w': "w' = Write file (content r) # w1"
      by (auto simp: download_icon_w_def Let_def split: if_splits)
    from f have "extension (last file) = (if svg_type r then u ''svg'' else u ''png'')"
      by (simp add: extension_append ext_no_dot)
    with rs r None f w' w1 show ?thesis by simp
  next
    case (Some url)
    with assms rs r obtain asset w2 where fa: "fetch_asset env w1 url = (Inr asset, w2)"
      and f: "file = dest_dir @ [str_int icon_id @ u ''.'' @ (if fmt = Svg then u ''svg'' else u ''png'')]"
      and w': "w' = Write file (content asset) # w2"
      by (auto simp: download_icon_w_def Let_def split: prod.splits sum.splits)
    from f have "extension (last file) = fmt_name fmt"
      by (cases fmt) (simp_all add: extension_append ext_no_dot fmt_name_def)
    moreover have "files_written w2 = files_written w1" using fa by (rule fetch_asset_files)
    ultimately show ?thesis using rs r Some f w' w1 by simp
  qed
qed

lemma download_icon_s_file:
  assumes "download_icon_s env w token icon_id fmt sz dest_path = (Inr x, w')"
  shows "files_written w' = files_written w @ [dest_path]"
proof -
  obtain res w1 where rs: "resolve env w token icon_id fmt sz = (res, w1)"
    by (cases "resolve env w token icon_id fmt sz")
  with assms obtain r where r: "res = Inr r"
    by (cases res) (auto simp: download_icon_s_def)
  have w1: "files_written w1 = files_written w" using rs by (rule resolve_files)
  from assms rs r w1 show ?thesis
    by (auto simp: download_icon_s_def split: option.splits prod.splits sum.splits if_splits
        dest: fetch_asset_files)
qed

lemma dest_path_s_extension:
  "extension (last (dest_path_s args filename_base)) = fmt_name (s_format args)"
  by (cases "s_format args")
     (simp_all add: dest_path_s_def extension_append ext_no_dot fmt_name_def)

text \<open>
  Claim C9, as amended. In \<open>workflows/fetch_flaticon.py\<close> a successful download writes
  exactly one file, in the destination directory; its extension is the requested format
  when the asset came through the JSON envelope, and, when the response itself was the
  asset, \<open>svg\<close> if the content type of the response contains \<open>svg\<close> and \<open>png\<close> otherwise,
  whatever format was requested. In \<open>scripts/fetch_flaticon.py\<close> a successful download
  writes exactly the destination it is given, and the destination that \<open>main\<close> builds
  from a file-name base has the requested format as its extension.
\<close>

theorem download_extension:
  "(download_icon_w env w token icon_id fmt sz dest_dir = (Inr file, w') \<longrightarrow>
      (\<exists>r w1. resolve env w token icon_id fmt sz = (Inr r, w1) \<and>
         files_written w' = files_written w @ [file] \<and>
         butlast file = dest_dir \<and>
         extension (last file) =
           (case j_url r of
              Some url \<Rightarrow> fmt_name fmt
            | None \<Rightarrow> if svg_type r then u ''svg'' else u ''png''))) \<and>
   (download_icon_s env w token icon_id fmt sz dest_path = (Inr x, w'') \<longrightarrow>
      files_written w'' = files_written w @ [dest_path]) \<and>
   extension (last (dest_path_s args filename_base)) = fmt_name (s_format args)"
  using download_icon_w_file download_icon_s_file dest_path_s_extension by blast

text \<open>
  With the server that answers every request successfully, a png download of icon 11
  goes through the JSON envelope and writes \<open>icons/11.png\<close> in the batch-by-query script
  and the given \<open>icons/guitar.png\<close> in the batch-by-label script.
\<close>

lemma u_11_png: "str_int 11 @ u ''.'' @ u ''png'' = u ''11.png''"
  by (simp add: str_int_def str_nat.simps u_def cp_def)

lemma u_22_png: "str_int 22 @ u ''.'' @ u ''png'' = u ''22.png''"
  by (simp add: str_int_def str_nat.simps u_def cp_def)

lemma happy_download_w:
  "download_icon_w happy_env [] ''T1'' 11 Png 128 [u ''icons''] =
     (Inr [u ''icons'', u ''11.png''],
      [Write [u ''icons'', u ''11.png''] [80, 78, 71],
       Request (AssetReq ''https://cdn/11.png''),
       Request (ResolveQuery ''T1'' 11 Png (Some 128))])"
  unfolding download_icon_w_def Let_def
  by (simp add: resolve_cases fetch_asset_def http_def happy_env_def happy_response_def
      size_param_def u_11_png)

lemma happy_download_s:
  "download_icon_s happy_env [] ''T1'' 11 Png 128 [u ''icons'', u ''guitar.png''] =
     (Inr (),
      [Write [u ''icons'', u ''guitar.png''] [80, 78, 71],
       Request (AssetReq ''https://cdn/11.png''),
       Request (ResolveQuery ''T1'' 11 Png (Some 128))])"
  unfolding download_icon_s_def
  by (simp add: resolve_cases fetch_asset_def http_def happy_env_def happy_response_def
      size_param_def)

theorem download_extension_witness:
  "download_icon_w happy_env [] ''T1'' 11 Png 128 [u ''icons''] =
     (Inr [u ''icons'', u ''11.png''],
      [Write [u ''icons'', u ''11.png''] [80, 78, 71],
       Request (AssetReq ''https://cdn/11.png''),
       Request (ResolveQuery ''T1'' 11 Png (Some 128))]) \<and>
   download_icon_s happy_env [] ''T1'' 11 Png 128 [u ''icons'', u ''guitar.png''] =
     (Inr (),
      [Write [u ''icons'', u ''guitar.png''] [80, 78, 71],
       Request (AssetReq ''https://cdn/11.png''),
       Request (ResolveQuery ''T1'' 11 Png (Some 128))]) \<and>
   (\<exists>r w1. resolve happy_env [] ''T1'' 11 Png 128 = (Inr r, w1) \<and> j_url r \<noteq> None) \<and>
   extension (u ''11.png'') = fmt_name Png \<and>
   extension (last (dest_path_s default_args_s (u ''guitar''))) = fmt_name Png"
proof -
  have r: "resolve happy_env [] ''T1'' 11 Png 128 =
             (Inr happy_response, [Request (ResolveQuery ''T1'' 11 Png (Some 128))])"
    by (simp add: resolve_cases happy_env_def happy_response_def size_param_def)
  have j: "j_url happy_response = Some ''https://cdn/11.png''"
    by (simp add: happy_response_def)
  have f: "s_format default_args_s = Png" by (simp add: default_args_s_def)
  from download_extension[of happy_env "[]" "''T1''" 11 Png 128 "[u ''icons'']"
      "[u ''icons'', u ''11.png'']"
      "[Write [u ''icons'', u ''11.png''] [80, 78, 71],
        Request (AssetReq ''https://cdn/11.png''),
        Request (ResolveQuery ''T1'' 11 Png (Some 128))]"
      "[u ''icons'', u ''guitar.png'']" "()"
      "[Write [u ''icons'', u ''guitar.png''] [80, 78, 71],
        Request (AssetReq ''https://cdn/11.png''),
        Request (ResolveQuery ''T1'' 11 Png (Some 128))]"
      default_args_s "u ''guitar''"]
    happy_download_w happy_download_s r j f
  show ?thesis by auto
qed

text \<open>
  Claim C9, as stated, fails in the direct-binary path of
  \<open>workflows/fetch_flaticon.py\<close>: with svg requested for icon 22 and a response that is
  itself the asset, of content type \<open>image/png\<close>, the file written is \<open>icons/22.png\<close>.
\<close>

theorem download_icon_w_svg_counterexample:
  "download_icon_w direct_env [] ''T1'' 22 Svg 128 [u ''icons''] =
     (Inr [u ''icons'', u ''22.png''],
      [Write [u ''icons'', u ''22.png''] [80, 78, 71],
       Request (ResolveQuery ''T1'' 22 Svg None)]) \<and>
   extension (u ''22.png'') = u ''png'' \<and> fmt_name Svg = u ''svg'' \<and>
   extension (u ''22.png'') \<noteq> fmt_name Svg"
proof -
  have d: "download_icon_w direct_env [] ''T1'' 22 Svg 128 [u ''icons''] =
     (Inr [u ''icons'', u ''22.png''],
      [Write [u ''icons'', u ''22.png''] [80, 78, 71],
       Request (ResolveQuery ''T1'' 22 Svg None)])"
  proof -
    have i: "image_type (happy_response\<lparr>is_json := False, j_url := None,
                           content_type := Some (u ''image/png'')\<rparr>)"
      by (simp add: image_type_def u_def cp_def sublist_Cons_right)
    have s: "\<not> svg_type (happy_response\<lparr>is_json := False, j_url := None,
                           content_type := Some (u ''image/png'')\<rparr>)"
      by (simp add: svg_type_def u_def cp_def sublist_Cons_right)
    show ?thesis
      unfolding download_icon_w_def Let_def
      by (simp add: resolve_cases http_def direct_env_def direct_server_def happy_env_def
          size_param_def i s u_22_png) (simp add: happy_response_def)
  qed
  have e: "extension (u ''22.png'') = u ''png''"
    by (simp add: extension_def u_def cp_def)
  have f: "fmt_name Svg = u ''svg''" by (simp add: fmt_name_def)
  have n: "u ''png'' \<noteq> u ''svg''" by (simp add: u_def cp_def)
  from d e f n show ?thesis by simp
qed

section \<open>Properties of the Searcher\<close>

text \<open>One turn of the loop of \<open>search_icons\<close>, with the request made explicit.\<close>

lemma search_loop_step:
  "search_loop env token query order_by limit out page w =
     (if int (length out) < limit then
        (let req = SearchReq token order_by query (min 100 (limit - int (length out))) page;
             w1 = Request req # w
         in case net env w1 of
              None \<Rightarrow> (Inl RequestException, w1)
            | Some r \<Rightarrow>
                if status_code r \<noteq> 200
                then (Inl (SearchError (status_code r) (body_text r)), w1)
                else if \<not> is_json r then (Inl JSONDecodeError, w1)
                else if items_of r = [] then (Inr out, w1)
                else if meta_total r \<le> meta_page r then (Inr (out @ items_of r), w1)
                else search_loop env token query order_by limit (out @ items_of r) (page + 1) w1)
      else (Inr out, w))"
  by (subst search_loop.simps) (simp add: http_def Let_def split: option.splits)


lemma search_loop_paginated:
  "search_loop env token query order_by limit out page w = (res, w') \<Longrightarrow>
     \<exists>xs. exchanges env w' = exchanges env w @ xs \<and>
          paginated token order_by query limit (int (length out)) page xs"
proof (induction env token query order_by limit out page w arbitrary: res w'
       rule: search_loop.induct)
  case (1 env token query order_by limit out page w)
  let ?req = "SearchReq token order_by query (min 100 (limit - int (length out))) page"
  let ?w1 = "Request ?req # w"
  note step = search_loop_step[of env token query order_by limit out page w]
  show ?case
  proof (cases "int (length out) < limit")
    case False
    with 1(2) step have "w' = w" by simp
    with False show ?thesis by simp
  next
    case True
    have ex: "exchanges env ?w1 = exchanges env w @ [(?req, net env ?w1)]" by simp
    show ?thesis
    proof (cases "further_pages (net env ?w1)")
      case False
      with 1(2) step True have "w' = ?w1"
        by (auto simp: further_pages_def Let_def split: option.splits if_splits)
      with ex True False show ?thesis by simp
    next
      case fp: True
      then obtain r where r: "net env ?w1 = Some r" "status_code r = 200" "is_json r"
        "items_of r \<noteq> []" "meta_page r < meta_total r"
        by (auto simp: further_pages_def split: option.splits)
      with 1(2) step True
      have rec: "search_loop env token query order_by limit (out @ items_of r) (page + 1) ?w1 =
                   (res, w')"
        by (simp add: Let_def)
      have h: "(Inr r, ?w1) = http env w ?req" using r(1) by (simp add: http_def)
      from 1(1)[OF True h refl _ _ r(4) _ rec] r
      obtain xs where xs: "exchanges env w' = exchanges env ?w1 @ xs"
        "paginated token order_by query limit (int (length (out @ items_of r))) (page + 1) xs"
        by auto
      have "paginated token order_by query limit (int (length out)) page
              ((?req, net env ?w1) # xs)"
        using True fp xs(2) r(1) by (simp add: page_size_def)
      with xs(1) ex show ?thesis by simp
    qed
  qed
qed

text \<open>
  Claim C4. For every limit and every server, \<open>search_icons\<close> returns (the loop is a
  total function) and, when it returns records, at most \<open>limit\<close> of them; its requests
  are paginated: each asks \<open>min(100, limit - accumulated)\<close> records of the next page,
  the first being page 1, and the requests end when the limit is reached, or with an
  answer that is an error, has no records, or whose metadata shows no further page.
\<close>

theorem search_icons_pages:
  assumes "search_icons env w token query order_by limit = (res, w')"
  shows "(\<exists>xs. exchanges env w' = exchanges env w @ xs \<and>
               paginated token order_by query limit 0 1 xs) \<and>
         (\<forall>out. res = Inr out \<longrightarrow> length out \<le> nat limit)"
proof -
  obtain r0 where loop: "search_loop env token query order_by limit [] 1 w = (r0, w')"
    using assms by (auto simp: search_icons_def split: prod.splits sum.splits)
  from search_loop_paginated[OF loop]
  have pages: "\<exists>xs. exchanges env w' = exchanges env w @ xs \<and>
                    paginated token order_by query limit 0 1 xs"
    by simp
  have "length out \<le> nat limit" if "res = Inr out" for out
  proof (cases "0 < limit")
    case True
    from assms loop that obtain acc where "out = slice_to acc limit"
      by (auto simp: search_icons_def split: sum.splits)
    with True show ?thesis by (simp add: slice_to_def)
  next
    case False
    then have "search_loop env token query order_by limit [] 1 w = (Inr [], w)"
      by (subst search_loop_step) simp
    with assms that have "out = slice_to [] limit" by (simp add: search_icons_def)
    then show ?thesis by (simp add: slice_to_def)
  qed
  with pages show ?thesis by blast
qed

text \<open>
  A search for three records on the server with two records a page: page 1 is asked for
  3 records, page 2 for 1, and the first three of the four records are returned.
\<close>

lemma paged_search:
  "search_icons paged_env [] ''T1'' (u ''api'') Priority 3 =
     (Inr [Icon (Some 11) True, Icon (Some 12) True, Icon (Some 21) True],
      [Request (SearchReq ''T1'' Priority (u ''api'') 1 2),
       Request (SearchReq ''T1'' Priority (u ''api'') 3 1)])"
proof -
  have p2: "search_loop paged_env ''T1'' (u ''api'') Priority 3
              [Icon (Some 11) True, Icon (Some 12) True, Icon (Some 21) True, Icon (Some 22) True] 3
              [Request (SearchReq ''T1'' Priority (u ''api'') 1 2),
               Request (SearchReq ''T1'' Priority (u ''api'') 3 1)] =
            (Inr [Icon (Some 11) True, Icon (Some 12) True, Icon (Some 21) True, Icon (Some 22) True],
             [Request (SearchReq ''T1'' Priority (u ''api'') 1 2),
              Request (SearchReq ''T1'' Priority (u ''api'') 3 1)])"
    by (subst search_loop_step) simp
  have n1: "net paged_env [Request (SearchReq ''T1'' Priority (u ''api'') 3 1)] =
              Some (happy_response
                  \<lparr>j_data := Some [Icon (Some 11) True, Icon (Some 12) True],
                   j_metadata := Some \<lparr>m_page = Some 1, m_total = Some 5, m_count = None\<rparr>\<rparr>)"
    by (simp add: paged_env_def paged_server_def)
  have n2: "net paged_env [Request (SearchReq ''T1'' Priority (u ''api'') 1 2),
                           Request (SearchReq ''T1'' Priority (u ''api'') 3 1)] =
              Some (happy_response
                  \<lparr>j_data := Some [Icon (Some 21) True, Icon (Some 22) True],
                   j_metadata := Some \<lparr>m_page = Some 2, m_total = Some 5, m_count = None\<rparr>\<rparr>)"
    by (simp add: paged_env_def paged_server_def)
  have p1: "search_loop paged_env ''T1'' (u ''api'') Priority 3
              [Icon (Some 11) True, Icon (Some 12) True] 2
              [Request (SearchReq ''T1'' Priority (u ''api'') 3 1)] =
            (Inr [Icon (Some 11) True, Icon (Some 12) True, Icon (Some 21) True, Icon (Some 22) True],
             [Request (SearchReq ''T1'' Priority (u ''api'') 1 2),
              Request (SearchReq ''T1'' Priority (u ''api'') 3 1)])"
    by (subst search_loop_step)
       (simp add: Let_def n2 happy_response_def items_of_def meta_page_def meta_total_def p2)
  have p0: "search_loop paged_env ''T1'' (u ''api'') Priority 3 [] 1 [] =
            (Inr [Icon (Some 11) True, Icon (Some 12) True, Icon (Some 21) True, Icon (Some 22) True],
             [Request (SearchReq ''T1'' Priority (u ''api'') 1 2),
              Request (SearchReq ''T1'' Priority (u ''api'') 3 1)])"
    by (subst search_loop_step)
       (simp add: Let_def n1 happy_response_def items_of_def meta_page_def meta_total_def p1)
  show ?thesis by (simp add: search_icons_def p0 slice_to_def)
qed

theorem search_icons_pages_witness:
  "search_icons paged_env [] ''T1'' (u ''api'') Priority 3 =
     (Inr [Icon (Some 11) True, Icon (Some 12) True, Icon (Some 21) True],
      [Request (SearchReq ''T1'' Priority (u ''api'') 1 2),
       Request (SearchReq ''T1'' Priority (u ''api'') 3 1)]) \<and>
   (\<exists>xs. exchanges paged_env
           [Request (SearchReq ''T1'' Priority (u ''api'') 1 2),
            Request (SearchReq ''T1'' Priority (u ''api'') 3 1)] = exchanges paged_env [] @ xs \<and>
         paginated ''T1'' Priority (u ''api'') 3 0 1 xs) \<and>
   length [Icon (Some 11) True, Icon (Some 12) True, Icon (Some 21) True] \<le> nat 3"
  using search_icons_pages[OF paged_search] paged_search by simp

text \<open>
  Claim C5. In the loop of \<open>search_icons\<close>, after an answer with status 200 and a
  non-empty page, no further page is requested when the page number of the metadata
  (1 if absent) is greater than or equal to its total (its count if there is no total, 0
  if there is neither), however few records are accumulated; the comparison is with the
  total itself, so when the page number is below the total the loop goes on with the
  next page.
\<close>

theorem search_stops_at_total:
  assumes "int (length out) < limit"
    and "net env (Request (SearchReq token order_by query
                             (min 100 (limit - int (length out))) page) # w) = Some r"
    and "status_code r = 200" and "is_json r" and "items_of r \<noteq> []"
  shows "(meta_total r \<le> meta_page r \<longrightarrow>
            search_loop env token query order_by limit out page w =
              (Inr (out @ items_of r),
               Request (SearchReq token order_by query
                          (min 100 (limit - int (length out))) page) # w)) \<and>
         (meta_page r < meta_total r \<longrightarrow>
            search_loop env token query order_by limit out page w =
              search_loop env token query order_by limit (out @ items_of r) (page + 1)
                (Request (SearchReq token order_by query
                            (min 100 (limit - int (length out))) page) # w))"
  using assms by (subst search_loop_step, simp add: Let_def)+

text \<open>
  A search for ten records on the server whose metadata carries page 1, no total and
  count 1: after the first page, with one record, no further page is requested.
\<close>

theorem search_stops_at_total_witness:
  "int (length ([] :: icon list)) < 10 \<and>
   net single_env [Request (SearchReq ''T1'' Priority (u ''api'') (min 100 (10 - int (length ([] :: icon list)))) 1)] =
     Some (happy_response
             \<lparr>j_metadata := Some \<lparr>m_page = Some 1, m_total = None, m_count = Some 1\<rparr>\<rparr>) \<and>
   meta_page (happy_response
             \<lparr>j_metadata := Some \<lparr>m_page = Some 1, m_total = None, m_count = Some 1\<rparr>\<rparr>) = 1 \<and>
   meta_total (happy_response
             \<lparr>j_metadata := Some \<lparr>m_page = Some 1, m_total = None, m_count = Some 1\<rparr>\<rparr>) = 1 \<and>
   search_loop single_env ''T1'' (u ''api'') Priority 10 [] 1 [] =
     (Inr [Icon (Some 11) True], [Request (SearchReq ''T1'' Priority (u ''api'') 10 1)])"
proof -
  let ?r = "happy_response
             \<lparr>j_metadata := Some \<lparr>m_page = Some 1, m_total = None, m_count = Some 1\<rparr>\<rparr>"
  have a: "int (length ([] :: icon list)) < 10" by simp
  have n: "net single_env [Request (SearchReq ''T1'' Priority (u ''api'')
             (min 100 (10 - int (length ([] :: icon list)))) 1)] = Some ?r"
    by (simp add: single_env_def single_server_def)
  have s: "status_code ?r = 200" and j: "is_json ?r" and i: "items_of ?r \<noteq> []"
    and i2: "items_of ?r = [Icon (Some 11) True]"
    by (simp_all add: happy_response_def items_of_def)
  have mp: "meta_page ?r = 1" and mt: "meta_total ?r = 1"
    by (simp_all add: meta_page_def meta_total_def)
  from search_stops_at_total[OF a n s j i] mp mt i2 a n show ?thesis by simp
qed

section \<open>Properties of the drivers\<close>

subsection \<open>Items of a run\<close>

text \<open>
  The loop over the labels leaves at its first label, whatever the label and the server:
  \<open>safe_filename\<close> is called before the \<open>try\<close> block and raises.
\<close>

lemma process_labels_raises:
  "process_labels lower env args token (label # labels) counts w =
     (Inl (TypeError ''string''), w)"
  by (simp add: safe_filename_s_raises)

text \<open>
  The loop over the results of the batch-by-query driver comes to its end for every list
  of results and every server, and the download request of every result that has an id
  is issued; with the key set, the directory made, a token and a search result, the run
  ends with the summary line.
\<close>

lemma fetch_asset_grows: "fetch_asset env w url = (res, w') \<Longrightarrow> x \<in> set w \<Longrightarrow> x \<in> set w'"
  by (auto simp: fetch_asset_def http_def split: option.splits if_splits)

lemma download_icon_w_attempt:
  assumes "download_icon_w env w token icon_id fmt sz dest_dir = (res, w')"
  shows "Request (ResolveQuery token icon_id fmt (size_param fmt sz)) \<in> set w' \<and>
         set w \<subseteq> set w'"
proof -
  obtain rr w1 where rs: "resolve env w token icon_id fmt sz = (rr, w1)"
    by (cases "resolve env w token icon_id fmt sz")
  then have w1: "Request (ResolveQuery token icon_id fmt (size_param fmt sz)) \<in> set w1 \<and>
                 set w \<subseteq> set w1"
    by (auto simp: resolve_cases split: option.splits if_splits)
  from assms rs have "set w1 \<subseteq> set w'"
    by (auto simp: download_icon_w_def Let_def
        split: sum.splits option.splits prod.splits if_splits dest: fetch_asset_grows)
  with w1 show ?thesis by blast
qed

lemma download_all_grows:
  "download_all env args token results downloaded w = (n, w') \<Longrightarrow> set w \<subseteq> set w'"
proof (induction env args token results downloaded w rule: download_all.induct)
  case (1 env args token downloaded w)
  then show ?case by simp
next
  case (2 env args token item results downloaded w)
  show ?case
  proof (cases "given_id item")
    case None
    with 2 show ?thesis by simp
  next
    case (Some icon_id)
    obtain res w1 where d: "download_icon_w env w token icon_id (w_format args) (w_size args)
                              (w_out args) = (res, w1)"
      by (cases "download_icon_w env w token icon_id (w_format args) (w_size args) (w_out args)")
    from download_icon_w_attempt[OF d] have g: "set w \<subseteq> set w1" by simp
    show ?thesis
    proof (cases res)
      case (Inl e)
      with 2(2)[OF Some d[symmetric]] 2(4) Some d g show ?thesis by auto
    next
      case (Inr f)
      with 2(3)[OF Some d[symmetric]] 2(4) Some d g show ?thesis by auto
    qed
  qed
qed

lemma download_all_attempts:
  "download_all env args token results downloaded w = (n, w') \<Longrightarrow>
   item \<in> set results \<Longrightarrow> given_id item = Some icon_id \<Longrightarrow>
   Request (ResolveQuery token icon_id (w_format args)
              (size_param (w_format args) (w_size args))) \<in> set w'"
proof (induction env args token results downloaded w rule: download_all.induct)
  case (1 env args token downloaded w)
  then show ?case by simp
next
  case (2 env args token first results downloaded w)
  show ?case
  proof (cases "given_id first")
    case None
    with 2(5,6) have "item \<in> set results" by auto
    with 2(1)[OF None] 2(4,6) None show ?thesis by simp
  next
    case (Some i)
    obtain res w1 where d: "download_icon_w env w token i (w_format args) (w_size args)
                              (w_out args) = (res, w1)"
      by (cases "download_icon_w env w token i (w_format args) (w_size args) (w_out args)")
    from download_icon_w_attempt[OF d]
    have a: "Request (ResolveQuery token i (w_format args)
                        (size_param (w_format args) (w_size args))) \<in> set w1"
      by simp
    show ?thesis
    proof (cases res)
      case (Inl e)
      with 2(4) Some d
      have rest: "download_all env args token results downloaded (Stderr (Failed i e) # w1) =
                    (n, w')"
        by simp
      show ?thesis
      proof (cases "item = first")
        case True
        with 2(6) Some have "icon_id = i" by simp
        with a download_all_grows[OF rest] show ?thesis by auto
      next
        case False
        with 2(5) have "item \<in> set results" by simp
        from 2(2)[OF Some d[symmetric] Inl rest this 2(6)] show ?thesis .
      qed
    next
      case (Inr f)
      with 2(4) Some d
      have rest: "download_all env args token results (downloaded + 1)
                    (Stdout (Downloaded i f) # w1) = (n, w')"
        by simp
      show ?thesis
      proof (cases "item = first")
        case True
        with 2(6) Some have "icon_id = i" by simp
        with a download_all_grows[OF rest] show ?thesis by auto
      next
        case False
        with 2(5) have "item \<in> set results" by simp
        from 2(3)[OF Some d[symmetric] Inr rest this 2(6)] show ?thesis .
      qed
    qed
  qed
qed

lemma main_w_summary:
  assumes "given_key env = Some api_key" and "mkdir_ok env (w_out args)"
    and "get_token env (Mkdir (w_out args) # w) api_key = (Inr token, w2)"
    and "search_icons env w2 token (w_query args) (w_order args) (w_limit args) =
           (Inr results, w3)"
  shows "\<exists>n w4. main_w env args w = (Exit 0, Stdout (DoneQuery n (w_out args)) # w4) \<and>
           (\<forall>item \<in> set results. \<forall>icon_id. given_id item = Some icon_id \<longrightarrow>
              Request (ResolveQuery token icon_id (w_format args)
                         (size_param (w_format args) (w_size args))) \<in> set w4)"
proof -
  obtain n w4 where d: "download_all env args token results 0
                          (Stdout (Found (length results) (w_limit args)) # w3) = (n, w4)"
    by (cases "download_all env args token results 0
                 (Stdout (Found (length results) (w_limit args)) # w3)")
  from assms d have "main_w env args w = (Exit 0, Stdout (DoneQuery n (w_out args)) # w4)"
    by (simp add: main_w_def mkdir_parents_def)
  with download_all_attempts[OF d] show ?thesis by blast
qed

text \<open>
  Claim C1. Both drivers should attempt every item and end with the summary line, whatever
  happens to single items. With the API key set, a server that answers every request
  successfully and a label file holding the one label \<open>guitar\<close>, the batch-by-label driver
  ends with an uncaught \<open>TypeError\<close>: the world then holds the \<open>mkdir\<close> and the
  authentication request only, so no search was attempted and no summary was printed.
\<close>

theorem main_s_guitar:
  "main_s ascii_lower happy_env default_args_s [] =
     (Uncaught (TypeError ''string''),
      [Request (AuthReq ''K''), Mkdir [u ''icons'']])"
proof -
  have labels: "read_labels happy_env = Inr [u ''guitar'']"
    by (simp add: read_labels_def happy_env_def u_def cp_def strip_def strip_chars_def
        isspace_def)
  have token: "get_token happy_env [Mkdir [u ''icons'']] ''K'' =
                 (Inr ''T1'', [Request (AuthReq ''K''), Mkdir [u ''icons'']])"
    by (simp add: get_token_def http_def happy_env_def happy_response_def)
  have loop: "process_labels ascii_lower happy_env default_args_s ''T1'' [u ''guitar''] (0, 0)
                [Request (AuthReq ''K''), Mkdir [u ''icons'']] =
              (Inl (TypeError ''string''),
               [Request (AuthReq ''K''), Mkdir [u ''icons'']])"
    by (simp add: safe_filename_s_def re_sub_def Let_def)
  have key: "given_key happy_env = Some ''K''"
    by (simp add: given_key_def happy_env_def)
  have dir: "mkdir_parents happy_env [] (s_out default_args_s) = (Inr (), [Mkdir [u ''icons'']])"
    by (simp add: mkdir_parents_def happy_env_def default_args_s_def)
  show ?thesis
    unfolding main_s_def key dir
    by (simp only: token labels loop prod.case sum.case option.case)
qed

subsection \<open>The missing secret\<close>

lemma exit_status_main_s:
  "exit_status (fst (main_s lower env args w)) = 2 \<longleftrightarrow> given_key env = None"
  by (auto simp: main_s_def exit_status_def split: option.splits prod.splits sum.splits)

lemma exit_status_main_w:
  "exit_status (fst (main_w env args w)) = 2 \<longleftrightarrow> given_key env = None"
  by (auto simp: main_w_def exit_status_def split: option.splits prod.splits sum.splits)




subsection \<open>Authentication errors\<close>

text \<open>
  \<open>get_token\<close> makes one request; what the loop over the labels and the search raise is
  never an authentication error.
\<close>

lemma get_token_world:
  "get_token env w api_key = (res, w') \<Longrightarrow> w' = Request (AuthReq api_key) # w"
  by (auto simp: get_token_def http_def split: option.splits if_splits)

lemma process_labels_no_auth_error:
  assumes "process_labels lower env args token labels counts w = (Inl e, w')"
  shows "\<not> auth_error e"
proof (cases labels)
  case Nil
  with assms show ?thesis by simp
next
  case (Cons label rest)
  from assms have "e = TypeError ''string''"
    unfolding Cons process_labels_raises by simp
  then show ?thesis by (simp add: auth_error_def)
qed

lemma search_loop_no_auth_error:
  "search_loop env token query order_by limit out page w = (Inl e, w') \<Longrightarrow> \<not> auth_error e"
proof (induction env token query order_by limit out page w rule: search_loop.induct)
  case (1 env token query order_by limit out page w)
  let ?req = "SearchReq token order_by query (min 100 (limit - int (length out))) page"
  note step = search_loop_step[of env token query order_by limit out page w]
  show ?case
  proof (cases "further_pages (net env (Request ?req # w)) \<and> int (length out) < limit")
    case False
    with 1(2) step show ?thesis
      by (auto simp: further_pages_def auth_error_def Let_def split: option.splits if_splits)
  next
    case True
    then obtain r where r: "net env (Request ?req # w) = Some r" "status_code r = 200" "is_json r"
      "items_of r \<noteq> []" "meta_page r < meta_total r"
      by (auto simp: further_pages_def split: option.splits)
    with 1(2) step True
    have rec: "search_loop env token query order_by limit (out @ items_of r) (page + 1)
                 (Request ?req # w) = (Inl e, w')"
      by (simp add: Let_def)
    have h: "(Inr r, Request ?req # w) = http env w ?req" using r(1) by (simp add: http_def)
    from True have lt: "int (length out) < limit" by simp
    from 1(1)[OF lt h refl _ _ r(4) _ rec] r show ?thesis by auto
  qed
qed

lemma search_icons_no_auth_error:
  "search_icons env w token query order_by limit = (Inl e, w') \<Longrightarrow> \<not> auth_error e"
  by (auto simp: search_icons_def split: prod.splits sum.splits dest: search_loop_no_auth_error)

lemma directories_Mkdir:
  "p \<noteq> [] \<Longrightarrow> prefix p out \<Longrightarrow> p \<in> set (directories (e # Mkdir out # w))"
proof -
  assume a: "p \<noteq> []" "prefix p out"
  have "prefixes out = [] # tl (prefixes out)" by (cases out) simp_all
  then have "set (prefixes out) = insert [] (set (tl (prefixes out)))" by (metis list.simps(15))
  with a have "p \<in> set (tl (prefixes out))" by (metis in_set_prefixes insert_iff)
  then have "p \<in> set (directories (Mkdir out # w))" by simp
  then show ?thesis by (cases e) auto
qed

lemma main_s_auth_error:
  assumes "main_s lower env args w = (Uncaught e, w')" and "auth_error e"
  shows "\<exists>api_key. w' = Request (AuthReq api_key) # Mkdir (s_out args) # w"
  using assms
  by (auto simp: main_s_def mkdir_parents_def read_labels_def auth_error_def
      split: option.splits prod.splits sum.splits if_splits
      dest: get_token_world process_labels_no_auth_error[unfolded auth_error_def])

lemma main_w_auth_error:
  assumes "main_w env args w = (Uncaught e, w')" and "auth_error e"
  shows "\<exists>api_key. w' = Request (AuthReq api_key) # Mkdir (w_out args) # w"
  using assms
  by (auto simp: main_w_def mkdir_parents_def auth_error_def
      split: option.splits prod.splits sum.splits if_splits
      dest: get_token_world search_icons_no_auth_error[unfolded auth_error_def])

text \<open>
  Claim C10. In both scripts a run that ends with an uncaught authentication error has
  done exactly two things: it has made the output directory, and after that it has
  issued the authentication request. So no file has been written, and the output
  directory and its parents exist afterward.
\<close>

theorem auth_error_abort:
  "(main_s lower env args w = (Uncaught e, w') \<and> auth_error e \<longrightarrow>
      (\<exists>api_key. w' = Request (AuthReq api_key) # Mkdir (s_out args) # w) \<and>
      files_written w' = files_written w \<and>
      (\<forall>p. p \<noteq> [] \<and> prefix p (s_out args) \<longrightarrow> p \<in> set (directories w'))) \<and>
   (main_w env args' w = (Uncaught e, w') \<and> auth_error e \<longrightarrow>
      (\<exists>api_key. w' = Request (AuthReq api_key) # Mkdir (w_out args') # w) \<and>
      files_written w' = files_written w \<and>
      (\<forall>p. p \<noteq> [] \<and> prefix p (w_out args') \<longrightarrow> p \<in> set (directories w')))"
proof -
  have "files_written w' = files_written w \<and>
        (\<forall>p. p \<noteq> [] \<and> prefix p out \<longrightarrow> p \<in> set (directories w'))"
    if "w' = Request (AuthReq api_key) # Mkdir out # w" for api_key out
    using that directories_Mkdir[of _ out "Request (AuthReq api_key)" w] by simp
  with main_s_auth_error[of lower env args w e w'] main_w_auth_error[of env args' w e w']
  show ?thesis by blast
qed

text \<open>
  With a server that answers 401, both scripts end with the authentication error after
  \<open>mkdir\<close> and the authentication request.
\<close>

lemma denied_main_s:
  "main_s ascii_lower denied_env default_args_s [] =
     (Uncaught (AuthFailed 401 ''denied''), [Request (AuthReq ''K''), Mkdir [u ''icons'']])"
  by (simp add: main_s_def given_key_def mkdir_parents_def get_token_def http_def denied_env_def
      denied_server_def happy_env_def default_args_s_def)

lemma denied_main_w:
  "main_w denied_env default_args_w [] =
     (Uncaught (AuthFailed 401 ''denied''), [Request (AuthReq ''K''), Mkdir [u ''icons'']])"
  by (simp add: main_w_def given_key_def mkdir_parents_def get_token_def http_def denied_env_def
      denied_server_def happy_env_def default_args_w_def)

theorem auth_error_abort_witness:
  "main_s ascii_lower denied_env default_args_s [] =
     (Uncaught (AuthFailed 401 ''denied''), [Request (AuthReq ''K''), Mkdir [u ''icons'']]) \<and>
   main_w denied_env default_args_w [] =
     (Uncaught (AuthFailed 401 ''denied''), [Request (AuthReq ''K''), Mkdir [u ''icons'']]) \<and>
   auth_error (AuthFailed 401 ''denied'') \<and>
   files_written [Request (AuthReq ''K''), Mkdir [u ''icons'']] = files_written [] \<and>
   s_out default_args_s = [u ''icons''] \<and> w_out default_args_w = [u ''icons''] \<and>
   [u ''icons''] \<in> set (directories [Request (AuthReq ''K''), Mkdir [u ''icons'']])"
proof -
  have a: "auth_error (AuthFailed 401 ''denied'')" by (simp add: auth_error_def)
  have o: "s_out default_args_s = [u ''icons'']" "w_out default_args_w = [u ''icons'']"
    by (simp_all add: default_args_s_def default_args_w_def)
  have p: "[u ''icons''] \<noteq> [] \<and> prefix [u ''icons''] (s_out default_args_s)"
    by (simp add: o)
  note inst = auth_error_abort[of ascii_lower denied_env default_args_s "[]"
      "AuthFailed 401 ''denied''" "[Request (AuthReq ''K''), Mkdir [u ''icons'']]" default_args_w]
  have s: "files_written [Request (AuthReq ''K''), Mkdir [u ''icons'']] = files_written [] \<and>
           [u ''icons''] \<in> set (directories [Request (AuthReq ''K''), Mkdir [u ''icons'']])"
    using inst denied_main_s a p by blast
  show ?thesis using denied_main_s denied_main_w a s o by blast
qed

subsection \<open>Search results without an identifier\<close>

lemma given_id_None: "given_id item = None \<longleftrightarrow> ident item = None \<or> ident item = Some 0"
  by (auto simp: given_id_def split: option.splits)

text \<open>
  Claim C7, as amended. In the batch-by-query driver a search result whose id is absent
  or 0 is skipped: the loop goes on with the next result in the same world and with the
  same count, so nothing is printed, nothing is counted and no request is made for it.
  In the \<open>try\<close> block of the batch-by-label driver, when the first search result has no
  id or the id 0, a \<open>MISS\<close> line with the label, the query and a reason is written to
  stderr and the failure count goes up by one.
\<close>

theorem missing_id_skipped:
  "(ident item = None \<or> ident item = Some 0 \<longrightarrow>
      download_all env args token (item # results) downloaded w =
        download_all env args token results downloaded w) \<and>
   (search_first_icon env w token q (s_order args') = (Inr (Some icon), w1) \<and>
    (ident icon = None \<or> ident icon = Some 0) \<longrightarrow>
      try_label env w args' token label q dest_path (successes, failures) =
        ((successes, failures + 1),
         Stderr (MissLine label q
                   (if ident icon = None \<and> \<not> other_fields icon then ''no results''
                    else ''missing id'')) # w1))"
proof -
  have "download_all env args token (item # results) downloaded w =
          download_all env args token results downloaded w"
    if "given_id item = None"
    using that by simp
  moreover have "try_label env w args' token label q dest_path (successes, failures) =
        ((successes, failures + 1),
         Stderr (MissLine label q
                   (if ident icon = None \<and> \<not> other_fields icon then ''no results''
                    else ''missing id'')) # w1)"
    if "search_first_icon env w token q (s_order args') = (Inr (Some icon), w1)"
      and "given_id icon = None"
    using that by (simp add: try_label_def)
  ultimately show ?thesis unfolding given_id_None by blast
qed

text \<open>
  With the server whose search result has no id: the batch-by-query loop leaves the world
  and the count as they are, and the \<open>try\<close> block of the batch-by-label driver counts one
  failure and prints the \<open>MISS\<close> line with the reason \<open>missing id\<close>.
\<close>

lemma no_id_search_first:
  "search_first_icon no_id_env [] ''T1'' (u ''guitar'') (s_order default_args_s) =
     (Inr (Some (Icon None True)), [Request (SearchReq ''T1'' Priority (u ''guitar'') 1 1)])"
  by (simp add: search_first_icon_def http_def no_id_env_def no_id_server_def happy_response_def
      items_of_def default_args_s_def)

theorem missing_id_skipped_witness:
  "(ident (Icon None True) = None \<or> ident (Icon None True) = Some 0) \<and>
   download_all no_id_env default_args_w ''T1'' [Icon None True] 0 [] = (0, []) \<and>
   search_first_icon no_id_env [] ''T1'' (u ''guitar'') (s_order default_args_s) =
     (Inr (Some (Icon None True)), [Request (SearchReq ''T1'' Priority (u ''guitar'') 1 1)]) \<and>
   try_label no_id_env [] default_args_s ''T1'' (u ''Guitar'') (u ''guitar'')
       [u ''icons'', u ''guitar.png''] (0, 0) =
     ((0, 1),
      [Stderr (MissLine (u ''Guitar'') (u ''guitar'') ''missing id''),
       Request (SearchReq ''T1'' Priority (u ''guitar'') 1 1)])"
proof -
  have i: "ident (Icon None True) = None \<or> ident (Icon None True) = Some 0" by simp
  from missing_id_skipped[where item = "Icon None True" and env = no_id_env
      and args = default_args_w and token = "''T1''" and results = "[]" and downloaded = 0
      and w = "[]" and q = "u ''guitar''" and args' = default_args_s
      and icon = "Icon None True"
      and ?w1.0 = "[Request (SearchReq ''T1'' Priority (u ''guitar'') 1 1)]"
      and label = "u ''Guitar''" and dest_path = "[u ''icons'', u ''guitar.png'']"
      and successes = 0 and failures = 0]
    i no_id_search_first
  show ?thesis by simp
qed

text \<open>
  Claim C7, as stated, fails in the batch-by-query driver: with the server whose only
  search result has no id, the run prints the line with the number of results and the
  summary with 0 downloads, and nothing about the record or a failure.
\<close>

theorem main_w_missing_id_counterexample:
  "main_w no_id_env default_args_w [] =
     (Exit 0,
      [Stdout (DoneQuery 0 [u ''icons'']), Stdout (Found 1 10),
       Request (SearchReq ''T1'' Priority (u ''api'') 10 1),
       Request (AuthReq ''K''), Mkdir [u ''icons'']])"
proof -
  have key: "given_key no_id_env = Some ''K''"
    by (simp add: given_key_def no_id_env_def happy_env_def)
  have dir: "mkdir_parents no_id_env [] (w_out default_args_w) = (Inr (), [Mkdir [u ''icons'']])"
    by (simp add: mkdir_parents_def no_id_env_def happy_env_def default_args_w_def)
  have token: "get_token no_id_env [Mkdir [u ''icons'']] ''K'' =
                 (Inr ''T1'', [Request (AuthReq ''K''), Mkdir [u ''icons'']])"
    by (simp add: get_token_def http_def no_id_env_def no_id_server_def happy_response_def)
  have n: "net no_id_env [Request (SearchReq ''T1'' Priority (u ''api'') 10 1),
                          Request (AuthReq ''K''), Mkdir [u ''icons'']] =
             Some (happy_response\<lparr>j_data := Some [Icon None True]\<rparr>)"
    by (simp add: no_id_env_def no_id_server_def)
  have loop: "search_loop no_id_env ''T1'' (u ''api'') Priority 10 [] 1
                [Request (AuthReq ''K''), Mkdir [u ''icons'']] =
              (Inr [Icon None True],
               [Request (SearchReq ''T1'' Priority (u ''api'') 10 1),
                Request (AuthReq ''K''), Mkdir [u ''icons'']])"
    by (subst search_loop_step)
       (simp add: Let_def n happy_response_def items_of_def meta_page_def meta_total_def)
  have search: "search_icons no_id_env [Request (AuthReq ''K''), Mkdir [u ''icons'']] ''T1''
                  (w_query default_args_w) (w_order default_args_w) (w_limit default_args_w) =
                (Inr [Icon None True],
                 [Request (SearchReq ''T1'' Priority (u ''api'') 10 1),
                  Request (AuthReq ''K''), Mkdir [u ''icons'']])"
    by (simp add: search_icons_def default_args_w_def loop slice_to_def)
  have dl: "download_all no_id_env default_args_w ''T1'' [Icon None True] 0 w = (0, w)" for w
    by (simp add: given_id_def)
  show ?thesis
    unfolding main_w_def key dir
    by (simp only: token search dl prod.case sum.case option.case list.size)
       (simp add: default_args_w_def)
qed

end
